theory Spec2Isabelle
  imports Complex_Main
begin

section \<open>Python strings\<close>

text \<open>
  A Python \<^verbatim>\<open>str\<close> is modelled as a \<^typ>\<open>string\<close>, one \<^typ>\<open>char\<close> per code point, so
  the strings of the model are those of code points below 256. On them \<open>isspace\<close>,
  \<open>isdigit\<close> and \<open>lower_char\<close> are Python's \<^verbatim>\<open>str.isspace\<close>, \<^verbatim>\<open>str.isdigit\<close> and
  \<^verbatim>\<open>str.lower\<close>. \<open>upper_char\<close> is \<^verbatim>\<open>str.upper\<close> except on three characters whose upper
  case is not one 8-bit character (U+00B5, U+00DF, U+00FF), which it leaves alone; the
  code uses \<^verbatim>\<open>upper\<close> only to test whether a line starts with an ASCII label, and none of
  the three can take part in such a prefix (the upper case of U+00DF is \<open>SS\<close>, which no
  label contains). The bullet U+2022 that the parsers of the Planner and the Composer
  also accept as a list marker is not a \<^typ>\<open>char\<close>, so on the strings of this model the
  test \<^verbatim>\<open>line.startswith('\<bullet>')\<close> is always false and \<^verbatim>\<open>lstrip\<close> never meets it.
\<close>

definition isspace :: "char \<Rightarrow> bool" where
  \<comment> \<open>\<^verbatim>\<open>str.isspace\<close> on one character: TAB, LF, VT, FF, CR, FS, GS, RS, US, SPACE, NEL, NBSP.\<close>
  "isspace c = (c \<in> set [CHR 0x09, CHR 0x0A, CHR 0x0B, CHR 0x0C, CHR 0x0D,
                           CHR 0x1C, CHR 0x1D, CHR 0x1E, CHR 0x1F, CHR '' '',
                           CHR 0x85, CHR 0xA0])"

definition isdigit :: "char \<Rightarrow> bool" where
  \<comment> \<open>\<^verbatim>\<open>str.isdigit\<close> on one character: the ASCII digits and the superscripts 2, 3, 1.\<close>
  "isdigit c = (c \<in> set (''0123456789'' @ [CHR 0xB2, CHR 0xB3, CHR 0xB9]))"

definition latin_upper :: string where
  \<comment> \<open>The upper-case letters U+00C0 to U+00DE (without the multiplication sign U+00D7).\<close>
  "latin_upper =
     [CHR 0xC0, CHR 0xC1, CHR 0xC2, CHR 0xC3, CHR 0xC4, CHR 0xC5, CHR 0xC6, CHR 0xC7,
      CHR 0xC8, CHR 0xC9, CHR 0xCA, CHR 0xCB, CHR 0xCC, CHR 0xCD, CHR 0xCE, CHR 0xCF,
      CHR 0xD0, CHR 0xD1, CHR 0xD2, CHR 0xD3, CHR 0xD4, CHR 0xD5, CHR 0xD6, CHR 0xD8,
      CHR 0xD9, CHR 0xDA, CHR 0xDB, CHR 0xDC, CHR 0xDD, CHR 0xDE]"

definition latin_lower :: string where
  \<comment> \<open>Their lower-case letters, U+00E0 to U+00FE (without the division sign U+00F7).\<close>
  "latin_lower =
     [CHR 0xE0, CHR 0xE1, CHR 0xE2, CHR 0xE3, CHR 0xE4, CHR 0xE5, CHR 0xE6, CHR 0xE7,
      CHR 0xE8, CHR 0xE9, CHR 0xEA, CHR 0xEB, CHR 0xEC, CHR 0xED, CHR 0xEE, CHR 0xEF,
      CHR 0xF0, CHR 0xF1, CHR 0xF2, CHR 0xF3, CHR 0xF4, CHR 0xF5, CHR 0xF6, CHR 0xF8,
      CHR 0xF9, CHR 0xFA, CHR 0xFB, CHR 0xFC, CHR 0xFD, CHR 0xFE]"

definition lower_char :: "char \<Rightarrow> char" where
  "lower_char c =
     (case map_of (zip (''ABCDEFGHIJKLMNOPQRSTUVWXYZ'' @ latin_upper)
                       (''abcdefghijklmnopqrstuvwxyz'' @ latin_lower)) c of
        Some d \<Rightarrow> d | None \<Rightarrow> c)"

definition upper_char :: "char \<Rightarrow> char" where
  "upper_char c =
     (case map_of (zip (''abcdefghijklmnopqrstuvwxyz'' @ latin_lower)
                       (''ABCDEFGHIJKLMNOPQRSTUVWXYZ'' @ latin_upper)) c of
        Some d \<Rightarrow> d | None \<Rightarrow> c)"

definition str_lower :: "string \<Rightarrow> string" where
  "str_lower s = map lower_char s"

definition str_upper :: "string \<Rightarrow> string" where
  "str_upper s = map upper_char s"

primrec startswith :: "string \<Rightarrow> string \<Rightarrow> bool" where
  \<comment> \<open>\<^verbatim>\<open>s.startswith(p)\<close>, the prefix first: \<open>startswith p s\<close>.\<close>
  "startswith [] s = True"
| "startswith (p # ps) s = (case s of [] \<Rightarrow> False | c # cs \<Rightarrow> c = p \<and> startswith ps cs)"

primrec str_contains :: "string \<Rightarrow> string \<Rightarrow> bool" where
  \<comment> \<open>\<^verbatim>\<open>sub in s\<close>, the text searched first: \<open>str_contains s sub\<close>.\<close>
  "str_contains [] sub = (sub = [])"
| "str_contains (c # cs) sub = (startswith sub (c # cs) \<or> str_contains cs sub)"

primrec split_from :: "string \<Rightarrow> string \<Rightarrow> string list" where
  \<comment> \<open>The scan of \<^verbatim>\<open>s.split()\<close>: the second argument is the word read so far.\<close>
  "split_from [] word = (if word = [] then [] else [word])"
| "split_from (c # cs) word =
     (if isspace c then (if word = [] then split_from cs [] else word # split_from cs [])
      else split_from cs (word @ [c]))"

definition str_split :: "string \<Rightarrow> string list" where
  \<comment> \<open>\<^verbatim>\<open>s.split()\<close>: the maximal runs of non-space characters, in order.\<close>
  "str_split s = split_from s []"

primrec split_on :: "char \<Rightarrow> string \<Rightarrow> string list" where
  \<comment> \<open>\<^verbatim>\<open>s.split(sep)\<close> for a one-character separator: empty pieces are kept.\<close>
  "split_on sep [] = [[]]"
| "split_on sep (c # cs) =
     (if c = sep then [] # split_on sep cs
      else (case split_on sep cs of [] \<Rightarrow> [[c]] | piece # pieces \<Rightarrow> (c # piece) # pieces))"

definition str_strip :: "string \<Rightarrow> string" where
  "str_strip s = rev (dropWhile isspace (rev (dropWhile isspace s)))"

definition str_lstrip :: "string \<Rightarrow> string \<Rightarrow> string" where
  \<comment> \<open>\<^verbatim>\<open>s.lstrip(chars)\<close>, the characters to strip first.\<close>
  "str_lstrip chars s = dropWhile (\<lambda>c. c \<in> set chars) s"

definition after_first :: "char \<Rightarrow> string \<Rightarrow> string" where
  \<comment> \<open>\<^verbatim>\<open>s.split(sep, 1)[1]\<close> when \<open>sep\<close> occurs in \<open>s\<close> (there it is also
      \<^verbatim>\<open>s.split(sep, 1)[-1]\<close>): the text after the first separator.\<close>
  "after_first sep s = drop 1 (dropWhile (\<lambda>c. c \<noteq> sep) s)"

fun str_join :: "string \<Rightarrow> string list \<Rightarrow> string" where
  "str_join sep [] = []"
| "str_join sep [x] = x"
| "str_join sep (x # y # ys) = x @ sep @ str_join sep (y # ys)"

fun str_of_nat :: "nat \<Rightarrow> string" where
  \<comment> \<open>\<^verbatim>\<open>str(n)\<close> for a non-negative integer.\<close>
  "str_of_nat n =
     (if n < 10 then [''0123456789'' ! n]
      else str_of_nat (n div 10) @ [''0123456789'' ! (n mod 10)])"

fun dict_set :: "'k \<Rightarrow> 'v \<Rightarrow> ('k \<times> 'v) list \<Rightarrow> ('k \<times> 'v) list" where
  \<comment> \<open>\<^verbatim>\<open>{**d, k: v}\<close> on an insertion-ordered dict: an existing key keeps its place.\<close>
  "dict_set k v [] = [(k, v)]"
| "dict_set k v ((k', v') # d) = (if k' = k then (k, v) # d else (k', v') # dict_set k v d)"

declare str_of_nat.simps [simp del]

section \<open>Data model\<close>

text \<open>
  Floats (time stamps, latencies, durations) are modelled as reals: rounding is not part of
  the model. The documents of the store carry the fields the pipeline reads or writes.
\<close>

record msg_metadata =
  md_suggestions :: "string list"
  md_timings :: "(string \<times> real) list"
  md_ttft_ms :: "real option"
  md_total_time_ms :: "real option"

record message_doc =
  msg_id :: nat
  msg_sessionId :: string
  msg_userId :: string
  msg_role :: "string option"
  msg_content :: "string option"
  msg_metadata :: "msg_metadata option"
  msg_createdAt :: real
  msg_timestamp :: real

record session_doc =
  ses_sessionId :: string
  ses_userId :: string
  ses_summary :: "string option"
  ses_createdAt :: real
  ses_updatedAt :: real

record turn =
  turn_role :: "string option"
  turn_content :: "string option"
  turn_timestamp :: real

text \<open>The result dict of a query: \<^verbatim>\<open>{"status", "count", "data"}\<close> or
  \<^verbatim>\<open>{"status", "error"}\<close>; an absent key is \<open>None\<close>.\<close>

record db_result =
  res_status :: string
  res_count :: "nat option"
  res_data :: "message_doc list option"
  res_error :: "string option"

record find_args =
  arg_collection :: string
  arg_filter_sessionId :: string
  arg_limit :: nat

record tool_call =
  tc_tool :: string
  tc_args :: find_args
  tc_result :: db_result
  tc_latency_ms :: real
  tc_timestamp :: real

datatype finding_data = Docs "message_doc list" | NoData | RetryAttempt int

record finding =
  f_task :: string
  f_result :: string
  f_data :: finding_data

text \<open>
  \<^verbatim>\<open>AgentState\<close> (state.py). The key \<^verbatim>\<open>context\<close> is the field \<open>packed_context\<close>;
  \<open>llm_client\<close> says whether a client was injected (the other two injected
  dependencies, \<^verbatim>\<open>db_tools\<close> and \<^verbatim>\<open>memory_store\<close>, act on the world below).
\<close>

record agent_state =
  session_id :: string
  user_id :: string
  user_prompt :: string
  packed_context :: string
  session_summary :: "string option"
  last_k_turns :: "turn list"
  subtasks :: "string list"
  data_access_plan :: string
  worker_findings :: "finding list"
  tool_calls :: "tool_call list"
  critic_passed :: bool
  critic_feedback :: string
  retry_count :: int
  final_answer :: string
  suggestions :: "string list"
  timings :: "(string \<times> real) list"
  request_start :: real
  first_token_at :: "real option"
  completed_at :: "real option"
  stream_tokens :: "string list"
  current_agent :: string
  llm_client :: bool

section \<open>The world outside the pipeline\<close>

text \<open>
  Everything a run reads from outside is an oracle indexed by the number of reads so far:
  \<^item> \<open>clock\<close>: the readings of the system clock (\<^verbatim>\<open>time.time()\<close>,
    \<^verbatim>\<open>datetime.now\<close>), \<open>tick\<close> counting them. \<^verbatim>\<open>datetime.utcnow().timestamp()\<close>
    reads a naive UTC time as local time, which shifts it by \<open>utc_skew\<close>;
  \<^item> \<open>llm_replies\<close>: what the \<open>n\<close>-th call of \<^verbatim>\<open>llm_client.generate\<close> does;
  \<^item> \<open>db_faults\<close>: whether the \<open>n\<close>-th operation on the document store raises.
  The collections of the store are lists of documents in insertion order.
\<close>

datatype llm_outcome = LLMRaises string | LLMText string

record suggestion_doc =
  sg_sessionId :: string
  sg_userId :: string
  sg_messageId :: string
  sg_suggestions :: "string list"
  sg_createdAt :: real

record metrics_doc =
  mt_sessionId :: string
  mt_userId :: string
  mt_messageId :: string
  mt_ttft_ms :: "real option"
  mt_total_time_ms :: "real option"
  mt_tool_call_count :: nat
  mt_agent_timings :: "(string \<times> real) list"
  mt_timestamp :: real

record world =
  clock :: "nat \<Rightarrow> real"
  tick :: nat
  utc_skew :: real
  llm_replies :: "nat \<Rightarrow> llm_outcome"
  llm_calls :: nat
  db_faults :: "nat \<Rightarrow> string option"
  db_ops :: nat
  messages_coll :: "message_doc list"
  sessions_coll :: "session_doc list"
  suggestions_coll :: "suggestion_doc list"
  metrics_coll :: "metrics_doc list"
  tool_calls_coll :: "(string \<times> string \<times> tool_call) list"
  tool_call_logs :: "tool_call list"

definition time_time :: "world \<Rightarrow> real \<times> world" where
  \<comment> \<open>\<^verbatim>\<open>time.time()\<close>: the next reading of the clock.\<close>
  "time_time w = (clock w (tick w), w\<lparr>tick := Suc (tick w)\<rparr>)"

definition utcnow_timestamp :: "world \<Rightarrow> real \<times> world" where
  \<comment> \<open>\<^verbatim>\<open>datetime.utcnow().timestamp()\<close>.\<close>
  "utcnow_timestamp w = (clock w (tick w) + utc_skew w, w\<lparr>tick := Suc (tick w)\<rparr>)"

definition llm_generate :: "world \<Rightarrow> llm_outcome \<times> world" where
  \<comment> \<open>\<^verbatim>\<open>await llm_client.generate(prompt, ...)\<close>: the prompt goes to the collaborator,
      whose answer is the next reply of the oracle.\<close>
  "llm_generate w = (llm_replies w (llm_calls w), w\<lparr>llm_calls := Suc (llm_calls w)\<rparr>)"

section \<open>Validator (agents/critic.py)\<close>

definition critic_node :: "world \<Rightarrow> agent_state \<Rightarrow> agent_state \<times> world" where
  "critic_node w state =
     (let (start_time, w1) = time_time w;
          passed = True;
          feedback = ''Worker output validated successfully.'';
          (passed, feedback) =
            (if worker_findings state = [] then (False, ''No findings returned by Worker.'')
             else (passed, feedback));
          failed_tools = filter (\<lambda>tc. res_status (tc_result tc) \<noteq> ''ok'') (tool_calls state);
          (passed, feedback) =
            (if tool_calls state \<noteq> [] \<and> failed_tools \<noteq> []
             then (False, ''Tool calls failed: '' @ str_of_nat (length failed_tools)
                            @ '' failures detected.'')
             else (passed, feedback));
          prompt_keywords = remdups (take 5 (str_split (str_lower (user_prompt state))));
          findings_text = str_lower (str_join '' '' (map f_result (worker_findings state)));
          relevance_score = length (filter (str_contains findings_text) prompt_keywords);
          (passed, feedback) =
            (if relevance_score = 0
             then (False, ''Worker findings may not be relevant to user request.'')
             else (passed, feedback));
          (end_time, w2) = time_time w1;
          duration_ms = (end_time - start_time) * 1000;
          new_retry_count = (if \<not> passed then retry_count state + 1 else retry_count state)
      in (state\<lparr>critic_passed := passed,
                critic_feedback := feedback,
                retry_count := new_retry_count,
                current_agent := ''critic'',
                timings := dict_set ''critic'' duration_ms (timings state)\<rparr>, w2))"

section \<open>The retry edge (graph.py)\<close>

definition should_retry :: "agent_state \<Rightarrow> string" where
  "should_retry state =
     (if \<not> critic_passed state \<and> retry_count state < 1 then ''worker'' else ''synthesizer'')"

section \<open>Query collaborator (tools/db_tools.py)\<close>

definition mongo_op :: "world \<Rightarrow> string option \<times> world" where
  \<comment> \<open>The next operation on the document store: \<open>Some msg\<close> when the driver raises.\<close>
  "mongo_op w = (db_faults w (db_ops w), w\<lparr>db_ops := Suc (db_ops w)\<rparr>)"

definition db_find :: "world \<Rightarrow> string \<Rightarrow> string \<Rightarrow> nat \<Rightarrow> (string + db_result \<times> real) \<times> world" where
  \<comment> \<open>\<^verbatim>\<open>DBTools.find(collection, {"sessionId": sid}, limit)\<close> on the message collection, the
      only query the pipeline issues. \<open>Inl msg\<close> is \<^verbatim>\<open>raise DBToolError(msg)\<close>. Both paths
      append to the \<^verbatim>\<open>tool_call_logs\<close> of the \<^verbatim>\<open>DBTools\<close> object itself.\<close>
  "db_find w collection sid limit =
     (let (start_time, w1) = time_time w;
          args = \<lparr>arg_collection = collection, arg_filter_sessionId = sid, arg_limit = limit\<rparr>;
          (fault, w2) = mongo_op w1
      in case fault of
           None \<Rightarrow>
             (let matching = filter (\<lambda>m. msg_sessionId m = sid) (messages_coll w2);
                  data = (if limit = 0 then matching else take limit matching);
                  (now, w3) = time_time w2;
                  latency_ms = (now - start_time) * 1000;
                  result = \<lparr>res_status = ''ok'', res_count = Some (length data),
                            res_data = Some data, res_error = None\<rparr>;
                  (stamp, w4) = time_time w3
              in (Inr (result, latency_ms),
                  w4\<lparr>tool_call_logs := tool_call_logs w4 @
                     [\<lparr>tc_tool = ''db.find'', tc_args = args, tc_result = result,
                       tc_latency_ms = latency_ms, tc_timestamp = stamp\<rparr>]\<rparr>))
         | Some e \<Rightarrow>
             (let (now, w3) = time_time w2;
                  latency_ms = (now - start_time) * 1000;
                  result = \<lparr>res_status = ''error'', res_count = None,
                            res_data = None, res_error = Some e\<rparr>;
                  (stamp, w4) = time_time w3
              in (Inl e,
                  w4\<lparr>tool_call_logs := tool_call_logs w4 @
                     [\<lparr>tc_tool = ''db.find'', tc_args = args, tc_result = result,
                       tc_latency_ms = latency_ms, tc_timestamp = stamp\<rparr>]\<rparr>)))"

section \<open>Executor (agents/worker.py)\<close>

definition db_keywords :: "string list" where
  "db_keywords = [''query'', ''fetch'', ''retrieve'', ''history'', ''data'', ''conversation'',
                  ''previous'', ''earlier'', ''past'', ''messages'']"

definition needs_db_access :: "string \<Rightarrow> bool" where
  "needs_db_access task = list_ex (str_contains (str_lower task)) db_keywords"

fun worker_tasks ::
  "world \<Rightarrow> string \<Rightarrow> string list \<Rightarrow> finding list \<Rightarrow> tool_call list
     \<Rightarrow> (finding list \<times> tool_call list) \<times> world" where
  \<comment> \<open>The loop over the subtasks; \<open>findings\<close> and \<open>calls\<close> are the two lists it appends to.\<close>
  "worker_tasks w sid [] findings calls = ((findings, calls), w)"
| "worker_tasks w sid (task # rest) findings calls =
     (let (task_start, w1) = time_time w
      in if needs_db_access task then
           (case db_find w1 ''messages'' sid 50 of
              (Inr (result, latency), w2) \<Rightarrow>
                (let (stamp, w3) = time_time w2;
                     tool_call_log =
                       \<lparr>tc_tool = ''db.find'',
                        tc_args = \<lparr>arg_collection = ''messages'', arg_filter_sessionId = sid,
                                   arg_limit = 50\<rparr>,
                        tc_result = result, tc_latency_ms = latency, tc_timestamp = stamp\<rparr>;
                     count = (case res_count result of None \<Rightarrow> 0 | Some n \<Rightarrow> n);
                     data = (case res_data result of None \<Rightarrow> [] | Some d \<Rightarrow> d)
                 in worker_tasks w3 sid rest
                      (findings @
                         [\<lparr>f_task = task,
                           f_result = ''Retrieved '' @ str_of_nat count
                                        @ '' messages from conversation history'',
                           f_data = Docs data\<rparr>])
                      (calls @ [tool_call_log]))
            | (Inl e, w2) \<Rightarrow>
                worker_tasks w2 sid rest
                  (findings @
                     [\<lparr>f_task = task, f_result = ''Error fetching data: '' @ e,
                       f_data = Docs []\<rparr>])
                  calls)
         else
           worker_tasks w1 sid rest
             (findings @ [\<lparr>f_task = task, f_result = ''Completed: '' @ task, f_data = NoData\<rparr>])
             calls)"

definition worker_node :: "world \<Rightarrow> agent_state \<Rightarrow> agent_state \<times> world" where
  "worker_node w state =
     (let (start_time, w1) = time_time w;
          ((findings, calls), w2) =
             worker_tasks w1 (session_id state) (subtasks state) [] (tool_calls state);
          findings =
            (if retry_count state > 0
             then findings @
                    [\<lparr>f_task = ''retry_adjustment'',
                      f_result = ''Re-executed tasks with improved strategy'',
                      f_data = RetryAttempt (retry_count state)\<rparr>]
             else findings);
          (end_time, w3) = time_time w2;
          duration_ms = (end_time - start_time) * 1000
      in (state\<lparr>worker_findings := findings,
                tool_calls := calls,
                current_agent := ''worker'',
                timings := dict_set ''worker'' duration_ms (timings state)\<rparr>, w3))"

section \<open>Planner (agents/planner.py)\<close>

definition list_item :: "string \<Rightarrow> string option" where
  \<comment> \<open>The item text of a numbered or bulleted line (the line is stripped and not empty),
      as both parsers extract it; \<open>None\<close> when the line is not a list item or the text is
      not longer than 5 characters.\<close>
  "list_item line =
     (case line of
        [] \<Rightarrow> None
      | c # _ \<Rightarrow>
          if isdigit c \<or> startswith ''-'' line then
            (let item = (if CHR ''.'' \<in> set line then str_strip (after_first (CHR ''.'') line)
                         else str_strip (str_lstrip ''0123456789.-'' line))
             in if item \<noteq> [] \<and> length item > 5 then Some item else None)
          else None)"

text \<open>The parser's loop state: \<open>(in_subtasks, in_data_plan, subtasks, data_plan)\<close>.\<close>

definition plan_line ::
  "bool \<times> bool \<times> string list \<times> string \<Rightarrow> string \<Rightarrow> bool \<times> bool \<times> string list \<times> string" where
  "plan_line st raw =
     (let (in_subtasks, in_data_plan, tasks, data_plan) = st;
          line = str_strip raw
      in if startswith ''SUBTASKS:'' (str_upper line) then (True, False, tasks, data_plan)
         else if startswith ''DATA_PLAN:'' (str_upper line)
                 \<or> startswith ''DATA PLAN:'' (str_upper line) then
           (let after_colon =
                  (if CHR '':'' \<in> set line then str_strip (after_first (CHR '':'') line) else [])
            in (False, True, tasks,
                if after_colon \<noteq> [] then data_plan @ after_colon @ '' '' else data_plan))
         else if in_subtasks \<and> line \<noteq> [] then
           (case list_item line of
              Some task \<Rightarrow> (in_subtasks, in_data_plan, tasks @ [task], data_plan)
            | None \<Rightarrow> st)
         else if in_data_plan \<and> line \<noteq> [] then
           (in_subtasks, in_data_plan, tasks, data_plan @ line @ '' '')
         else st)"

definition history_words :: "string list" where
  "history_words = [''my'', ''our'', ''previous'', ''earlier'', ''last'', ''before'',
                    ''conversation'', ''discussed'', ''mentioned'', ''said'']"

definition plan_from_response :: "string \<Rightarrow> string \<Rightarrow> string list \<times> string" where
  \<comment> \<open>The \<^verbatim>\<open>try\<close> block after the generation call returned \<open>response\<close>.\<close>
  "plan_from_response prompt response =
     (let lines = split_on (CHR 0x0A) (str_strip response);
          (in_subtasks, in_data_plan, tasks, data_plan) =
             foldl plan_line (False, False, [], []) lines;
          data_plan = str_strip data_plan;
          (tasks, data_plan) =
            (if tasks = [] then
               (if list_ex (str_contains (str_lower prompt)) history_words then
                  ([''Retrieve conversation history to understand context'',
                    ''Analyze user's request: '' @ take 50 prompt,
                    ''Formulate contextual response based on history''],
                   ''Query messages collection for session history'')
                else
                  ([''Understand the request: '' @ take 50 prompt,
                    ''Gather relevant information'',
                    ''Prepare comprehensive response''],
                   ''No database access needed for this request''))
             else (tasks, data_plan));
          data_plan =
            (if data_plan = [] then ''Determine data needs based on request context''
             else data_plan)
      in (tasks, data_plan))"

definition planner_node :: "world \<Rightarrow> agent_state \<Rightarrow> agent_state \<times> world" where
  \<comment> \<open>\<open>Inl\<close> is an exception raised inside the \<^verbatim>\<open>try\<close> block: the missing client, or
      whatever the generation call raises (a reply that is not text raises at its first
      use). The \<^verbatim>\<open>except\<close> branch turns it into the critical fallback.\<close>
  "planner_node w state =
     (let (start_time, w1) = time_time w;
          (attempt, w2) =
            (if \<not> llm_client state then (Inl ''LLM client not found in state'', w1)
             else (case llm_generate w1 of
                     (LLMRaises e, w') \<Rightarrow> (Inl e, w')
                   | (LLMText response, w') \<Rightarrow>
                       (Inr (plan_from_response (user_prompt state) response), w')));
          (tasks, data_plan) =
            (case attempt of
               Inr plan \<Rightarrow> plan
             | Inl e \<Rightarrow>
                 ([''Process user request: '' @ take 60 (user_prompt state),
                   ''Gather necessary information'',
                   ''Prepare appropriate response''],
                  ''Assess if database query needed during execution''));
          (end_time, w3) = time_time w2;
          duration_ms = (end_time - start_time) * 1000
      in (state\<lparr>subtasks := tasks,
                data_access_plan := data_plan,
                current_agent := ''planner'',
                timings := dict_set ''planner'' duration_ms (timings state)\<rparr>, w3))"

section \<open>Composer (agents/synthesizer.py)\<close>

text \<open>The parser's loop state: \<open>(in_answer, in_suggestions, answer_lines, suggestions)\<close>.\<close>

definition answer_line ::
  "bool \<times> bool \<times> string list \<times> string list \<Rightarrow> string
     \<Rightarrow> bool \<times> bool \<times> string list \<times> string list" where
  "answer_line st raw =
     (let (in_answer, in_suggestions, answer_lines, sugs) = st;
          line = str_strip raw
      in if startswith ''ANSWER:'' (str_upper line) then
           (let after_colon =
                  (if CHR '':'' \<in> set line then str_strip (after_first (CHR '':'') line) else [])
            in (True, False,
                if after_colon \<noteq> [] then answer_lines @ [after_colon] else answer_lines,
                sugs))
         else if startswith ''SUGGESTIONS:'' (str_upper line) then
           (False, True, answer_lines, sugs)
         else if in_answer \<and> line \<noteq> [] then
           (in_answer, in_suggestions, answer_lines @ [line], sugs)
         else if in_suggestions \<and> line \<noteq> [] then
           (case list_item line of
              Some sug \<Rightarrow> (in_answer, in_suggestions, answer_lines, sugs @ [sug])
            | None \<Rightarrow> st)
         else st)"

definition default_suggestions :: "string list" where
  "default_suggestions = [''Can you tell me more about this?'',
                          ''What else would you like to know?'',
                          ''Should we explore this topic further?'']"

function pad_suggestions :: "string list \<Rightarrow> string list" where
  \<comment> \<open>\<^verbatim>\<open>while len(suggestions) < 3: suggestions.append(default_suggestions[len(suggestions)])\<close>\<close>
  "pad_suggestions sugs =
     (if length sugs < 3 then pad_suggestions (sugs @ [default_suggestions ! length sugs])
      else sugs)"
  by pat_completeness auto
termination
  by (relation "measure (\<lambda>sugs. 3 - length sugs)") auto

declare pad_suggestions.simps [simp del]

definition answer_from_response ::
  "string \<Rightarrow> finding list \<Rightarrow> string \<Rightarrow> string \<times> string list" where
  \<comment> \<open>The \<^verbatim>\<open>try\<close> block after the generation call returned \<open>response\<close>.\<close>
  "answer_from_response prompt findings response =
     (let lines = split_on (CHR 0x0A) (str_strip response);
          (in_answer, in_suggestions, answer_lines, sugs) =
             foldl answer_line (False, False, [], []) lines;
          answer = str_strip (str_join '' '' answer_lines);
          answer =
            (if answer = [] then
               (if length response > 20 \<and> \<not> startswith ''ANSWER:'' response
                then str_strip response
                else ''I understand you're asking about: '' @ prompt @ ''. '' @
                     (case findings of
                        f # _ \<Rightarrow> ''Based on my analysis: '' @ f_result f
                      | [] \<Rightarrow> ''Let me help you with that.''))
             else answer);
          sugs = (if length sugs < 3 then pad_suggestions sugs else sugs);
          sugs = take 3 sugs
      in (answer, sugs))"

definition synthesizer_node :: "world \<Rightarrow> agent_state \<Rightarrow> agent_state \<times> world" where
  \<comment> \<open>\<open>Inl\<close> is an exception raised inside the \<^verbatim>\<open>try\<close> block, as in the Planner.\<close>
  "synthesizer_node w state =
     (let (start_time, w1) = time_time w;
          (attempt, w2) =
            (if \<not> llm_client state then (Inl ''LLM client not found in state'', w1)
             else (case llm_generate w1 of
                     (LLMRaises e, w') \<Rightarrow> (Inl e, w')
                   | (LLMText response, w') \<Rightarrow>
                       (Inr (answer_from_response (user_prompt state) (worker_findings state)
                               response), w')));
          (answer, sugs) =
            (case attempt of
               Inr out \<Rightarrow> out
             | Inl e \<Rightarrow>
                 (''I received your message: '' @ [CHR 0x27] @ user_prompt state
                    @ [CHR 0x27] @ ''. ''
                    @ (case worker_findings state of
                         f # _ \<Rightarrow> ''Analysis shows: '' @ f_result f @ ''. ''
                       | [] \<Rightarrow> [])
                    @ ''How can I help you further?'',
                  [''Tell me more about what you need'',
                   ''Can you clarify your question?'',
                   ''What would you like to know next?'']));
          (completed, w3) = time_time w2;
          duration_ms = (completed - start_time) * 1000
      in (state\<lparr>final_answer := answer,
                suggestions := sugs,
                completed_at := Some completed,
                current_agent := ''synthesizer'',
                timings := dict_set ''synthesizer'' duration_ms (timings state)\<rparr>, w3))"

section \<open>Pipeline controller (graph.py)\<close>

text \<open>
  The graph of \<^verbatim>\<open>create_agent_graph\<close>: entry at the Planner, then the Executor, then the
  Validator; after the Validator the edge function \<open>should_retry\<close> is evaluated on the
  state the Validator returned and names the next node; the Composer leads to the end.
  \<open>astream\<close> yields one event \<open>(node name, state returned by the node)\<close> per node run.
\<close>

lemma critic_node_retry_count:
  "retry_count (fst (critic_node w s)) =
     (if critic_passed (fst (critic_node w s)) then retry_count s else retry_count s + 1)"
  by (simp add: critic_node_def time_time_def Let_def split_def)

lemma worker_node_retry_count: "retry_count (fst (worker_node w s)) = retry_count s"
  by (simp add: worker_node_def Let_def split_def)

lemma worker_node_critic_passed: "critic_passed (fst (worker_node w s)) = critic_passed s"
  by (simp add: worker_node_def Let_def split_def)

lemma should_retry_worker:
  "should_retry s = ''worker'' \<longleftrightarrow> \<not> critic_passed s \<and> retry_count s < 1"
  by (simp add: should_retry_def)

function from_critic :: "world \<Rightarrow> agent_state \<Rightarrow> (string \<times> agent_state) list \<times> world" where
  "from_critic w state =
     (let (s1, w1) = critic_node w state
      in if should_retry s1 = ''worker'' then
           (let (s2, w2) = worker_node w1 s1;
                (events, w3) = from_critic w2 s2
            in ((''critic'', s1) # (''worker'', s2) # events, w3))
         else
           (let (s3, w3) = synthesizer_node w1 s1
            in ([(''critic'', s1), (''synthesizer'', s3)], w3)))"
  by pat_completeness auto
termination
proof (relation "measure (\<lambda>(w, s). nat (- retry_count s))", goal_cases)
  case 1
  show ?case by simp
next
  case (2 w state x s1 w1 y s2 w2)
  have s1: "s1 = fst (critic_node w state)" and s2: "s2 = fst (worker_node w1 s1)"
    using 2 by (metis fst_conv)+
  have "\<not> critic_passed s1" and "retry_count s1 < 1"
    using 2(3) by (simp_all add: should_retry_worker)
  then have "retry_count s1 = retry_count state + 1"
    using critic_node_retry_count [of w state] s1 by simp
  then have "retry_count s2 = retry_count state + 1" and "retry_count state < 0"
    using s2 worker_node_retry_count [of w1 s1] \<open>retry_count s1 < 1\<close> by simp_all
  then show ?case by simp
qed

declare from_critic.simps [simp del]

definition astream :: "world \<Rightarrow> agent_state \<Rightarrow> (string \<times> agent_state) list \<times> world" where
  "astream w state =
     (let (s1, w1) = planner_node w state;
          (s2, w2) = worker_node w1 s1;
          (events, w3) = from_critic w2 s2
      in ((''planner'', s1) # (''worker'', s2) # events, w3))"

definition create_initial_state ::
  "world \<Rightarrow> string \<Rightarrow> string \<Rightarrow> string \<Rightarrow> string \<Rightarrow> string option \<Rightarrow> turn list
     \<Rightarrow> agent_state \<times> world" where
  \<comment> \<open>state.py; the dependencies are not set here: the caller injects them.\<close>
  "create_initial_state w sid uid prompt ctx summary turns =
     (let (now, w1) = utcnow_timestamp w
      in (\<lparr>session_id = sid, user_id = uid, user_prompt = prompt,
           packed_context = ctx, session_summary = summary, last_k_turns = turns,
           subtasks = [], data_access_plan = [],
           worker_findings = [], tool_calls = [],
           critic_passed = False, critic_feedback = [], retry_count = 0,
           final_answer = [], suggestions = [],
           timings = [], request_start = now, first_token_at = None, completed_at = None,
           stream_tokens = [], current_agent = [], llm_client = False\<rparr>, w1))"

section \<open>Memory collaborator (memory/store.py)\<close>

text \<open>
  An operation that can raise returns \<open>Inl msg\<close> for the exception. Every call of the
  driver (\<^verbatim>\<open>find_one\<close>, \<^verbatim>\<open>count_documents\<close>, \<^verbatim>\<open>to_list\<close>, \<^verbatim>\<open>insert_one\<close>,
  \<^verbatim>\<open>update_one\<close>) asks the fault oracle first. The number that stands for the
  \<^verbatim>\<open>ObjectId\<close> of an inserted message is its position in the collection.
\<close>

definition and_then ::
  "(string + 'a) \<times> world \<Rightarrow> ('a \<Rightarrow> world \<Rightarrow> (string + 'b) \<times> world)
     \<Rightarrow> (string + 'b) \<times> world" where
  \<comment> \<open>Sequencing: an exception of the first step skips the rest.\<close>
  "and_then m f = (case m of (Inl e, w) \<Rightarrow> (Inl e, w) | (Inr x, w) \<Rightarrow> f x w)"

definition driver_call :: "world \<Rightarrow> (string + unit) \<times> world" where
  "driver_call w =
     (case mongo_op w of (Some e, w') \<Rightarrow> (Inl e, w') | (None, w') \<Rightarrow> (Inr (), w'))"

definition save_message ::
  "world \<Rightarrow> string \<Rightarrow> string \<Rightarrow> string \<Rightarrow> string \<Rightarrow> msg_metadata option
     \<Rightarrow> (string + string) \<times> world" where
  "save_message w sid uid role content metadata =
     (let (created, w1) = time_time w;
          (stamp, w2) = time_time w1;
          message = \<lparr>msg_id = length (messages_coll w2), msg_sessionId = sid, msg_userId = uid,
                     msg_role = Some role, msg_content = Some content,
                     msg_metadata = metadata, msg_createdAt = created, msg_timestamp = stamp\<rparr>
      in and_then (driver_call w2)
           (\<lambda>_ w3. (Inr (str_of_nat (msg_id message)),
                     w3\<lparr>messages_coll := messages_coll w3 @ [message]\<rparr>)))"

definition get_session_messages ::
  "world \<Rightarrow> string \<Rightarrow> int option \<Rightarrow> (string + message_doc list) \<times> world" where
  \<comment> \<open>The cursor is sorted by time stamp (documents with equal stamps keep their insertion
      order here). With a limit \<open>n\<close> that is neither \<^verbatim>\<open>None\<close> nor 0 the documents are
      counted, \<open>max 0 (total - n)\<close> are skipped and at most \<open>|n|\<close> are returned.\<close>
  "get_session_messages w sid limit =
     (let sorted = sort_key msg_timestamp (filter (\<lambda>m. msg_sessionId m = sid) (messages_coll w))
      in case limit of
           None \<Rightarrow> and_then (driver_call w) (\<lambda>_ w1. (Inr sorted, w1))
         | Some n \<Rightarrow>
             if n = 0 then and_then (driver_call w) (\<lambda>_ w1. (Inr sorted, w1))
             else
               and_then (driver_call w)
                 (\<lambda>_ w1.
                    (let total_count = int (length sorted);
                         skip = max 0 (total_count - n)
                     in and_then (driver_call w1)
                          (\<lambda>_ w2. (Inr (take (nat \<bar>n\<bar>) (drop (nat skip) sorted)), w2)))))"

definition get_session_summary :: "world \<Rightarrow> string \<Rightarrow> (string + string option) \<times> world" where
  "get_session_summary w sid =
     and_then (driver_call w)
       (\<lambda>_ w1. (Inr (case find (\<lambda>d. ses_sessionId d = sid) (sessions_coll w1) of
                        Some session \<Rightarrow> ses_summary session
                      | None \<Rightarrow> None), w1))"

fun set_summary :: "string \<Rightarrow> string \<Rightarrow> string \<Rightarrow> real \<Rightarrow> real \<Rightarrow> session_doc list \<Rightarrow> session_doc list" where
  \<comment> \<open>\<^verbatim>\<open>update_one(..., upsert=True)\<close>: the first matching session is updated; when there
      is none a new one is inserted.\<close>
  "set_summary sid summary uid updated created [] =
     [\<lparr>ses_sessionId = sid, ses_userId = uid, ses_summary = Some summary,
       ses_createdAt = created, ses_updatedAt = updated\<rparr>]"
| "set_summary sid summary uid updated created (d # ds) =
     (if ses_sessionId d = sid
      then d\<lparr>ses_summary := Some summary, ses_userId := uid, ses_updatedAt := updated\<rparr> # ds
      else d # set_summary sid summary uid updated created ds)"

definition update_session_summary ::
  "world \<Rightarrow> string \<Rightarrow> string \<Rightarrow> string \<Rightarrow> (string + unit) \<times> world" where
  "update_session_summary w sid summary uid =
     (let (updated, w1) = time_time w;
          (created, w2) = time_time w1
      in and_then (driver_call w2)
           (\<lambda>_ w3. (Inr (),
                     w3\<lparr>sessions_coll :=
                          set_summary sid summary uid updated created (sessions_coll w3)\<rparr>)))"

definition get_or_create_session :: "world \<Rightarrow> string \<Rightarrow> string \<Rightarrow> (string + session_doc) \<times> world" where
  "get_or_create_session w sid uid =
     and_then (driver_call w)
       (\<lambda>_ w1.
          case find (\<lambda>d. ses_sessionId d = sid) (sessions_coll w1) of
            Some session \<Rightarrow> (Inr session, w1)
          | None \<Rightarrow>
              (let (created, w2) = time_time w1;
                   (updated, w3) = time_time w2;
                   session = \<lparr>ses_sessionId = sid, ses_userId = uid, ses_summary = None,
                              ses_createdAt = created, ses_updatedAt = updated\<rparr>
               in and_then (driver_call w3)
                    (\<lambda>_ w4. (Inr session, w4\<lparr>sessions_coll := sessions_coll w4 @ [session]\<rparr>))))"

section \<open>Summarizer (memory/summarizer.py)\<close>

definition content_or_empty :: "message_doc \<Rightarrow> string" where
  \<comment> \<open>\<^verbatim>\<open>m.get("content", "")\<close>\<close>
  "content_or_empty m = (case msg_content m of Some c \<Rightarrow> c | None \<Rightarrow> [])"

definition summarize_messages :: "message_doc list \<Rightarrow> nat \<Rightarrow> string" where
  "summarize_messages messages target_tokens =
     (if messages = [] then []
      else
        (let user_messages = filter (\<lambda>m. msg_role m = Some ''user'') messages;
             assistant_messages = filter (\<lambda>m. msg_role m = Some ''assistant'') messages;
             summary_parts =
               [''Conversation history: '' @ str_of_nat (length messages) @ '' total messages'',
                ''User asked about: '' @ str_of_nat (length user_messages) @ '' topics'',
                ''Assistant provided: '' @ str_of_nat (length assistant_messages)
                   @ '' responses''];
             summary_parts =
               (case user_messages of
                  [] \<Rightarrow> summary_parts
                | first # _ \<Rightarrow>
                    (let first_user = take 100 (content_or_empty first);
                         last_user = take 100 (content_or_empty (last user_messages));
                         parts = summary_parts @ [''Initial topic: '' @ first_user @ ''...'']
                     in if length user_messages > 1
                        then parts @ [''Recent topic: '' @ last_user @ ''...'']
                        else parts));
             summary = str_join '' | '' summary_parts;
             max_chars = target_tokens * 4
         in if length summary > max_chars then take max_chars summary @ ''...'' else summary))"

section \<open>Context Packer (memory/context_manager.py)\<close>

definition DEFAULT_SHORT_TERM_K :: int where "DEFAULT_SHORT_TERM_K = 10"
definition DEFAULT_TOKEN_BUDGET :: int where "DEFAULT_TOKEN_BUDGET = 3000"
definition CHARS_PER_TOKEN :: nat where "CHARS_PER_TOKEN = 4"

definition estimate_tokens :: "string \<Rightarrow> nat" where
  \<comment> \<open>\<^verbatim>\<open>math.ceil(len(text) / CHARS_PER_TOKEN)\<close>\<close>
  "estimate_tokens text = (length text + (CHARS_PER_TOKEN - 1)) div CHARS_PER_TOKEN"

record context_manager =
  short_term_k :: int
  token_budget :: int

record packed =
  pc_context :: string
  pc_summary :: "string option"
  pc_last_k_turns :: "turn list"
  pc_token_count :: nat
  pc_summary_updated :: bool

definition turn_line :: "message_doc \<Rightarrow> string" where
  "turn_line msg =
     [CHR 0x0A] @ str_upper (case msg_role msg of Some r \<Rightarrow> r | None \<Rightarrow> ''unknown'')
       @ '': '' @ content_or_empty msg"

definition pack_context ::
  "context_manager \<Rightarrow> world \<Rightarrow> string \<Rightarrow> string \<Rightarrow> string \<Rightarrow> (string + packed) \<times> world" where
  "pack_context cm w sid uid current_prompt =
     and_then (get_session_summary w sid) (\<lambda>summary w1.
     and_then (get_session_messages w1 sid (Some (short_term_k cm))) (\<lambda>recent_messages w2.
       (let system_meta = ''You are a helpful AI assistant. Answer based on conversation history and current request.'';
            context_parts = [system_meta];
            context_parts =
              (case summary of
                 None \<Rightarrow> context_parts
               | Some text \<Rightarrow>
                   if text = [] then context_parts
                   else context_parts @ [''\<newline>[Session Summary]\<newline>'' @ text]);
            context_parts =
              (if recent_messages = [] then context_parts
               else context_parts @
                      [''\<newline>[Recent Conversation]'' @ concat (map turn_line recent_messages)]);
            context_parts =
              context_parts @ [''\<newline>[Current Request]\<newline>USER: '' @ current_prompt];
            full_context = str_join ''\<newline>'' context_parts;
            token_count = estimate_tokens full_context;
            turns = map (\<lambda>msg. \<lparr>turn_role = msg_role msg, turn_content = msg_content msg,
                                  turn_timestamp = msg_timestamp msg\<rparr>) recent_messages
        in if int token_count > token_budget cm
              \<and> int (length recent_messages) > short_term_k cm then
             and_then (get_session_messages w2 sid None) (\<lambda>all_messages w3.
               (let new_summary = summarize_messages all_messages 500
                in and_then (update_session_summary w3 sid new_summary uid) (\<lambda>_ w4.
                     (let context_parts =
                            context_parts[1 := ''\<newline>[Session Summary]\<newline>'' @ new_summary];
                          full_context = str_join ''\<newline>'' context_parts;
                          token_count = estimate_tokens full_context
                      in (Inr \<lparr>pc_context = full_context, pc_summary = Some new_summary,
                               pc_last_k_turns = turns, pc_token_count = token_count,
                               pc_summary_updated = True\<rparr>, w4)))))
           else
             (Inr \<lparr>pc_context = full_context, pc_summary = summary,
                   pc_last_k_turns = turns, pc_token_count = token_count,
                   pc_summary_updated = False\<rparr>, w2))))"

section \<open>Event Relay (api/routers/chat.py)\<close>

record chat_request =
  req_sessionId :: string
  req_userId :: string
  req_prompt :: string

record done_data =
  fullText :: string
  done_suggestions :: "string list"
  requestStart :: real
  firstTokenAt :: "real option"
  completedAt :: "real option"
  ttft_ms :: "real option"
  total_ms :: "real option"

datatype sse_event =
    AgentEv string
  | ToolCallStarted string find_args
  | ToolCallCompleted string bool real
  | TokenEv string
  | DoneEv done_data
  | ErrorEv string

definition calculate_ttft :: "real \<Rightarrow> real option \<Rightarrow> real option" where
  \<comment> \<open>tools/time.py\<close>
  "calculate_ttft start first_token =
     (case first_token of None \<Rightarrow> None | Some t \<Rightarrow> Some ((t - start) * 1000))"

definition calculate_total_time :: "real \<Rightarrow> real option \<Rightarrow> real option" where
  "calculate_total_time start completed =
     (case completed of None \<Rightarrow> None | Some t \<Rightarrow> Some ((t - start) * 1000))"

definition tool_call_events :: "tool_call \<Rightarrow> sse_event list" where
  "tool_call_events tc =
     [ToolCallStarted (tc_tool tc) (tc_args tc),
      ToolCallCompleted (tc_tool tc) (res_status (tc_result tc) = ''ok'') (tc_latency_ms tc)]"

fun emit_words ::
  "string list \<Rightarrow> bool \<Rightarrow> agent_state \<Rightarrow> world \<Rightarrow> sse_event list \<times> bool \<times> agent_state \<times> world" where
  \<comment> \<open>The loop over the words of the final answer; the flag is \<^verbatim>\<open>first_token_sent\<close>.\<close>
  "emit_words [] sent state w = ([], sent, state, w)"
| "emit_words (word # rest) sent state w =
     (let (sent1, state1, w1) =
            (if \<not> sent then
               (let (now, w') = time_time w in (True, state\<lparr>first_token_at := Some now\<rparr>, w'))
             else (sent, state, w));
          (events, sent2, state2, w2) = emit_words rest sent1 state1 w1
      in (TokenEv (word @ '' '') # events, sent2, state2, w2))"

fun relay ::
  "(string \<times> agent_state) list \<Rightarrow> bool \<Rightarrow> agent_state \<Rightarrow> world
     \<Rightarrow> sse_event list \<times> agent_state \<times> world" where
  \<comment> \<open>The loop over the events of the graph. The graph runs its nodes one by one as the loop
      asks for the next event; the relay itself reads the clock only while it handles the
      Composer's event, which is the last one, so running the graph first keeps the order
      of all clock readings.\<close>
  "relay [] sent state w = ([], state, w)"
| "relay ((node_name, updated_state) # rest) sent state w =
     (let tool_events =
            (if node_name = ''worker'' \<and> tool_calls updated_state \<noteq> []
             then concat (map tool_call_events (tool_calls updated_state)) else []);
          (token_events, sent1, updated_state1, w1) =
            (if node_name = ''synthesizer''
             then emit_words (str_split (final_answer updated_state)) sent updated_state w
             else ([], sent, updated_state, w));
          (events, final_state, w2) = relay rest sent1 updated_state1 w1
      in (AgentEv node_name # tool_events @ token_events @ events, final_state, w2))"

fun save_tool_calls :: "world \<Rightarrow> string \<Rightarrow> string \<Rightarrow> tool_call list \<Rightarrow> (string + unit) \<times> world" where
  "save_tool_calls w sid uid [] = (Inr (), w)"
| "save_tool_calls w sid uid (tc # rest) =
     and_then (driver_call w)
       (\<lambda>_ w1. save_tool_calls (w1\<lparr>tool_calls_coll := tool_calls_coll w1 @ [(sid, uid, tc)]\<rparr>)
                  sid uid rest)"

definition persist ::
  "world \<Rightarrow> chat_request \<Rightarrow> agent_state \<Rightarrow> real option \<Rightarrow> real option \<Rightarrow> (string + unit) \<times> world" where
  \<comment> \<open>The four writes between the metrics and the \<^verbatim>\<open>done\<close> event.\<close>
  "persist w request state ttft total_time =
     and_then (save_message w (req_sessionId request) (req_userId request) ''assistant''
                 (final_answer state)
                 (Some \<lparr>md_suggestions = suggestions state, md_timings = timings state,
                         md_ttft_ms = ttft, md_total_time_ms = total_time\<rparr>)) (\<lambda>message_id w1.
     (let (created, w2) = time_time w1 in
      and_then (driver_call w2) (\<lambda>_ w3.
     (let w4 = w3\<lparr>suggestions_coll := suggestions_coll w3 @
                    [\<lparr>sg_sessionId = req_sessionId request, sg_userId = req_userId request,
                      sg_messageId = message_id, sg_suggestions = suggestions state,
                      sg_createdAt = created\<rparr>]\<rparr>;
          (stamp, w5) = time_time w4 in
      and_then (driver_call w5) (\<lambda>_ w6.
        save_tool_calls
          (w6\<lparr>metrics_coll := metrics_coll w6 @
                 [\<lparr>mt_sessionId = req_sessionId request, mt_userId = req_userId request,
                   mt_messageId = message_id, mt_ttft_ms = ttft,
                   mt_total_time_ms = total_time,
                   mt_tool_call_count = length (tool_calls state),
                   mt_agent_timings = timings state, mt_timestamp = stamp\<rparr>]\<rparr>)
          (req_sessionId request) (req_userId request) (tool_calls state))))))"

definition stream_chat_response :: "world \<Rightarrow> chat_request \<Rightarrow> sse_event list \<times> world" where
  \<comment> \<open>The events yielded, in order. An exception anywhere ends the stream with one
      \<^verbatim>\<open>error\<close> event after the events already yielded.\<close>
  "stream_chat_response w request =
     (let cm = \<lparr>short_term_k = DEFAULT_SHORT_TERM_K, token_budget = DEFAULT_TOKEN_BUDGET\<rparr>;
          sid = req_sessionId request; uid = req_userId request; prompt = req_prompt request
      in case and_then (get_or_create_session w sid uid) (\<lambda>_ w1.
              and_then (pack_context cm w1 sid uid prompt) (\<lambda>context_data w2.
                (let (state, w3) = create_initial_state w2 sid uid prompt
                                     (pc_context context_data) (pc_summary context_data)
                                     (pc_last_k_turns context_data);
                     state = state\<lparr>llm_client := True\<rparr>
                 in and_then (save_message w3 sid uid ''user'' prompt None)
                      (\<lambda>_ w4. (Inr state, w4))))) of
           (Inl e, w') \<Rightarrow> ([ErrorEv e], w')
         | (Inr state, w4) \<Rightarrow>
             (let (graph_events, w5) = astream w4 state;
                  (events, state, w6) = relay graph_events False state w5;
                  ttft = calculate_ttft (request_start state) (first_token_at state);
                  total_time = calculate_total_time (request_start state) (completed_at state)
              in case persist w6 request state ttft total_time of
                   (Inl e, w') \<Rightarrow> (events @ [ErrorEv e], w')
                 | (Inr _, w') \<Rightarrow>
                     (events @
                        [DoneEv \<lparr>fullText = final_answer state,
                                 done_suggestions = suggestions state,
                                 requestStart = request_start state,
                                 firstTokenAt = first_token_at state,
                                 completedAt = completed_at state,
                                 ttft_ms = ttft, total_ms = total_time\<rparr>], w')))"

definition token_texts :: "sse_event list \<Rightarrow> string list" where
  \<comment> \<open>What a client reads: the \<open>text\<close> fields of the \<^verbatim>\<open>token\<close> events, in emission order.\<close>
  "token_texts events = concat (map (\<lambda>ev. case ev of TokenEv text \<Rightarrow> [text] | _ \<Rightarrow> []) events)"

definition done_events :: "sse_event list \<Rightarrow> done_data list" where
  "done_events events = concat (map (\<lambda>ev. case ev of DoneEv d \<Rightarrow> [d] | _ \<Rightarrow> []) events)"

section \<open>Sample runs\<close>

text \<open>
  Two concrete worlds to run the code in. In both the clock ticks once per reading, the
  store is empty and never raises. In the first the generation backend answers the Planner
  and the Composer in the expected format; in the second the Planner's reply names one
  subtask that shares no word with the prompt.
\<close>

definition demo_world :: world where
  "demo_world =
     \<lparr>clock = real, tick = 0, utc_skew = 0,
      llm_replies = (\<lambda>n. if n = 0
         then LLMText ''SUBTASKS:\<newline>1. Fetch the history\<newline>2. Summarise the facts\<newline>DATA_PLAN: none''
         else LLMText ''ANSWER: Hello world\<newline>SUGGESTIONS:\<newline>1. Tell me more''),
      llm_calls = 0, db_faults = (\<lambda>n. None), db_ops = 0,
      messages_coll = [], sessions_coll = [], suggestions_coll = [], metrics_coll = [],
      tool_calls_coll = [], tool_call_logs = []\<rparr>"

definition demo_request :: chat_request where
  "demo_request = \<lparr>req_sessionId = ''s'', req_userId = ''u'', req_prompt = ''fetch my history''\<rparr>"

definition zebra_world :: world where
  "zebra_world =
     \<lparr>clock = real, tick = 0, utc_skew = 0,
      llm_replies = (\<lambda>n. if n = 0
         then LLMText ''SUBTASKS:\<newline>1. Gather the facts''
         else LLMText ''ANSWER: Done''),
      llm_calls = 0, db_faults = (\<lambda>n. None), db_ops = 0,
      messages_coll = [], sessions_coll = [], suggestions_coll = [], metrics_coll = [],
      tool_calls_coll = [], tool_call_logs = []\<rparr>"

definition zebra_state :: agent_state where
  "zebra_state =
     (fst (create_initial_state zebra_world ''s'' ''u'' ''zebra'' ''ctx'' None []))
       \<lparr>llm_client := True\<rparr>"

text \<open>
  Further inputs: a store whose every operation raises, with a state of two subtasks of
  which the first asks for data; a store whose first operation alone raises, with a plan
  of two subtasks that both ask for data, and the state and world that the Planner, the
  Executor and the Validator leave there for the prompt \<open>zebra\<close>; a backend that names
  four subtasks, and one that raises, with a prompt that contains the word \<open>my\<close>; and a
  session of fifteen stored turns of 1200 characters each.
\<close>

definition faulty_store_world :: world where
  "faulty_store_world = demo_world\<lparr>db_faults := (\<lambda>n. Some ''connection refused'')\<rparr>"

definition two_task_state :: agent_state where
  "two_task_state =
     (fst (create_initial_state demo_world ''s'' ''u'' ''show my history'' ''ctx'' None []))
       \<lparr>llm_client := True, subtasks := [''Fetch the history'', ''Write the summary'']\<rparr>"



definition four_tasks_world :: world where
  "four_tasks_world =
     demo_world\<lparr>llm_replies := (\<lambda>n. LLMText
        ''SUBTASKS:\<newline>1. Read the question\<newline>2. Fetch the history\<newline>3. Compare the answers\<newline>4. Write the reply'')\<rparr>"

definition offline_world :: world where
  "offline_world = demo_world\<lparr>llm_replies := (\<lambda>n. LLMRaises ''offline'')\<rparr>"

definition my_name_state :: agent_state where
  "my_name_state =
     (fst (create_initial_state demo_world ''s'' ''u'' ''what is my name'' ''ctx'' None []))
       \<lparr>llm_client := True\<rparr>"

definition long_history_world :: world where
  "long_history_world =
     \<lparr>clock = real, tick = 0, utc_skew = 0,
      llm_replies = (\<lambda>n. LLMRaises ''offline''),
      llm_calls = 0, db_faults = (\<lambda>n. None), db_ops = 0,
      messages_coll =
        map (\<lambda>i. \<lparr>msg_id = i, msg_sessionId = ''s'', msg_userId = ''u'',
                   msg_role = Some (if even i then ''user'' else ''assistant''),
                   msg_content = Some (replicate 1200 (CHR ''a'')),
                   msg_metadata = None, msg_createdAt = real i, msg_timestamp = real i\<rparr>)
            [0..<15],
      sessions_coll = [], suggestions_coll = [], metrics_coll = [],
      tool_calls_coll = [], tool_call_logs = []\<rparr>"

section \<open>Shape of a run of the graph and of the relay\<close>

lemma planner_node_retry_count: "retry_count (fst (planner_node w s)) = retry_count s"
  by (simp add: planner_node_def Let_def split_def)

lemma synthesizer_node_retry_count: "retry_count (fst (synthesizer_node w s)) = retry_count s"
  by (simp add: synthesizer_node_def Let_def split_def)

lemma should_retry_after_critic:
  assumes "0 \<le> retry_count s"
  shows "should_retry (fst (critic_node w s)) = ''synthesizer''"
proof (cases "critic_passed (fst (critic_node w s))")
  case True
  then show ?thesis by (simp add: should_retry_def)
next
  case False
  then have "retry_count (fst (critic_node w s)) = retry_count s + 1"
    by (simp add: critic_node_retry_count)
  with assms show ?thesis by (simp add: should_retry_def)
qed

lemma from_critic_no_retry:
  assumes "0 \<le> retry_count s"
  shows "from_critic w s =
           ([(''critic'', fst (critic_node w s)),
             (''synthesizer'', fst (synthesizer_node (snd (critic_node w s)) (fst (critic_node w s))))],
            snd (synthesizer_node (snd (critic_node w s)) (fst (critic_node w s))))"
  using should_retry_after_critic [OF assms, of w]
  by (subst from_critic.simps) (simp add: split_def Let_def)

lemma astream_shape:
  assumes "0 \<le> retry_count s"
  obtains s1 w1 s2 w2 s3 w3 s4 w4 where
    "planner_node w s = (s1, w1)" "worker_node w1 s1 = (s2, w2)"
    "critic_node w2 s2 = (s3, w3)" "synthesizer_node w3 s3 = (s4, w4)"
    "astream w s = ([(''planner'', s1), (''worker'', s2), (''critic'', s3), (''synthesizer'', s4)], w4)"
proof -
  obtain s1 w1 where p: "planner_node w s = (s1, w1)" by (cases "planner_node w s")
  obtain s2 w2 where wk: "worker_node w1 s1 = (s2, w2)" by (cases "worker_node w1 s1")
  obtain s3 w3 where c: "critic_node w2 s2 = (s3, w3)" by (cases "critic_node w2 s2")
  obtain s4 w4 where sy: "synthesizer_node w3 s3 = (s4, w4)" by (cases "synthesizer_node w3 s3")
  have "retry_count s1 = retry_count s" using planner_node_retry_count [of w s] p by simp
  moreover have "retry_count s2 = retry_count s1" using worker_node_retry_count [of w1 s1] wk by simp
  ultimately have "0 \<le> retry_count s2" using assms by simp
  then have "from_critic w2 s2 = ([(''critic'', s3), (''synthesizer'', s4)], w4)"
    by (simp add: from_critic_no_retry c sy)
  then have "astream w s = ([(''planner'', s1), (''worker'', s2), (''critic'', s3), (''synthesizer'', s4)], w4)"
    by (simp add: astream_def p wk)
  with p wk c sy show ?thesis using that by blast
qed

lemma emit_words_events:
  "fst (emit_words ws sent st w) = map (\<lambda>u. TokenEv (u @ '' '')) ws"
  by (induction ws arbitrary: sent st w) (simp_all add: split_def Let_def)

lemma emit_words_sent:
  "emit_words ws True st w = (map (\<lambda>u. TokenEv (u @ '' '')) ws, True, st, w)"
  by (induction ws) (simp_all add: split_def Let_def)

lemma emit_words_state:
  "fst (snd (snd (emit_words ws sent st w))) =
     (if ws = [] \<or> sent then st else st\<lparr>first_token_at := Some (clock w (tick w))\<rparr>)"
  by (cases ws; cases sent) (simp_all add: split_def Let_def emit_words_sent time_time_def)

lemma token_texts_Cons [simp]:
  "token_texts [] = []"
  "token_texts (AgentEv n # evs) = token_texts evs"
  "token_texts (TokenEv t # evs) = t # token_texts evs"
  "token_texts (DoneEv d # evs) = token_texts evs"
  "token_texts (ErrorEv e # evs) = token_texts evs"
  by (simp_all add: token_texts_def)

lemma done_events_Cons [simp]:
  "done_events [] = []"
  "done_events (AgentEv n # evs) = done_events evs"
  "done_events (TokenEv t # evs) = done_events evs"
  "done_events (DoneEv d # evs) = d # done_events evs"
  "done_events (ErrorEv e # evs) = done_events evs"
  by (simp_all add: done_events_def)

lemma token_texts_append: "token_texts (xs @ ys) = token_texts xs @ token_texts ys"
  by (simp add: token_texts_def)

lemma token_texts_tool_calls: "token_texts (concat (map tool_call_events tcs)) = []"
  by (induction tcs) (simp_all add: token_texts_def tool_call_events_def)

lemma token_texts_tokens: "token_texts (map (\<lambda>u. TokenEv (f u)) ws) = map f ws"
  by (induction ws) (simp_all add: token_texts_def)

lemma done_events_append: "done_events (xs @ ys) = done_events xs @ done_events ys"
  by (simp add: done_events_def)

lemma done_events_tool_calls: "done_events (concat (map tool_call_events tcs)) = []"
  by (induction tcs) (simp_all add: done_events_def tool_call_events_def)

lemma done_events_tokens: "done_events (map (\<lambda>u. TokenEv (f u)) ws) = []"
  by (induction ws) (simp_all add: done_events_def)

lemma relay_pipeline:
  fixes s1 s2 s3 s4 :: agent_state
  defines "trace \<equiv> [(''planner'', s1), (''worker'', s2), (''critic'', s3), (''synthesizer'', s4)]"
  shows "token_texts (fst (relay trace False s0 w)) = map (\<lambda>u. u @ '' '') (str_split (final_answer s4))"
    and "done_events (fst (relay trace False s0 w)) = []"
    and "fst (snd (relay trace False s0 w)) =
           (if str_split (final_answer s4) = [] then s4
            else s4\<lparr>first_token_at := Some (clock w (tick w))\<rparr>)"
proof -
  obtain evs sent st w' where e: "emit_words (str_split (final_answer s4)) False s4 w = (evs, sent, st, w')"
    by (metis prod_cases4)
  have evs: "evs = map (\<lambda>u. TokenEv (u @ '' '')) (str_split (final_answer s4))"
    using emit_words_events [of "str_split (final_answer s4)" False s4 w] e by simp
  have st: "st = (if str_split (final_answer s4) = [] then s4
            else s4\<lparr>first_token_at := Some (clock w (tick w))\<rparr>)"
    using emit_words_state [of "str_split (final_answer s4)" False s4 w] e by simp
  have r: "relay trace False s0 w =
        (AgentEv ''planner'' # AgentEv ''worker'' #
           (if tool_calls s2 \<noteq> [] then concat (map tool_call_events (tool_calls s2)) else [])
           @ AgentEv ''critic'' # AgentEv ''synthesizer'' # evs, st, w')"
    by (simp add: trace_def e)
  show "token_texts (fst (relay trace False s0 w)) = map (\<lambda>u. u @ '' '') (str_split (final_answer s4))"
    by (simp add: r token_texts_append token_texts_tool_calls evs token_texts_tokens)
  show "done_events (fst (relay trace False s0 w)) = []"
    by (simp add: r done_events_append done_events_tool_calls evs done_events_tokens)
  show "fst (snd (relay trace False s0 w)) =
           (if str_split (final_answer s4) = [] then s4
            else s4\<lparr>first_token_at := Some (clock w (tick w))\<rparr>)"
    by (simp add: r st)
qed

lemma time_time_clock [simp]:
  "clock (snd (time_time w)) = clock w" "tick (snd (time_time w)) = Suc (tick w)"
  "fst (time_time w) = clock w (tick w)"
  by (simp_all add: time_time_def)

lemma driver_call_clock:
  "driver_call w = (r, w') \<Longrightarrow> clock w' = clock w \<and> tick w' = tick w"
  by (auto simp: driver_call_def mongo_op_def split: option.splits)

lemma db_find_clock: "clock (snd (db_find w c sid n)) = clock w"
  by (simp add: db_find_def mongo_op_def Let_def split_def time_time_def split: option.splits)

lemma worker_tasks_clock: "clock (snd (worker_tasks w sid tasks fs cs)) = clock w"
proof (induction tasks arbitrary: w fs cs)
  case Nil
  show ?case by simp
next
  case (Cons task rest)
  show ?case
    using db_find_clock [of "snd (time_time w)" "''messages''" sid 50]
    by (auto simp: Let_def split_def Cons.IH split: sum.splits prod.splits)
qed

lemma planner_node_clock: "clock (snd (planner_node w s)) = clock w"
  by (simp add: planner_node_def Let_def split_def llm_generate_def time_time_def
      split: llm_outcome.splits)

lemma worker_node_clock: "clock (snd (worker_node w s)) = clock w"
  by (simp add: worker_node_def Let_def split_def worker_tasks_clock)

lemma critic_node_clock: "clock (snd (critic_node w s)) = clock w"
  by (simp add: critic_node_def Let_def split_def)

lemma planner_node_first_token: "first_token_at (fst (planner_node w s)) = first_token_at s"
  by (simp add: planner_node_def Let_def split_def)

lemma worker_node_first_token: "first_token_at (fst (worker_node w s)) = first_token_at s"
  by (simp add: worker_node_def Let_def split_def)

lemma critic_node_first_token: "first_token_at (fst (critic_node w s)) = first_token_at s"
  by (simp add: critic_node_def Let_def split_def)

lemma synthesizer_node_stamp:
  "\<exists>k. completed_at (fst (synthesizer_node w s)) = Some (clock w k)
       \<and> tick (snd (synthesizer_node w s)) = Suc k
       \<and> clock (snd (synthesizer_node w s)) = clock w
       \<and> first_token_at (fst (synthesizer_node w s)) = first_token_at s
       \<and> request_start (fst (synthesizer_node w s)) = request_start s"
  by (auto simp: synthesizer_node_def Let_def split_def llm_generate_def time_time_def
      split: llm_outcome.splits)


lemma and_then_clock:
  assumes "clock (snd m) = c" and "\<And>x w'. clock w' = c \<Longrightarrow> clock (snd (f x w')) = c"
  shows "clock (snd (and_then m f)) = c"
  using assms by (cases m) (auto simp: and_then_def split: sum.splits)

lemma driver_call_clock': "clock (snd (driver_call w)) = clock w"
  by (simp add: driver_call_def mongo_op_def split: option.splits)

lemma save_message_clock: "clock (snd (save_message w sid uid role content md)) = clock w"
  by (simp add: save_message_def Let_def split_def and_then_clock driver_call_clock')

lemma get_session_summary_clock: "clock (snd (get_session_summary w sid)) = clock w"
  by (simp add: get_session_summary_def and_then_clock driver_call_clock')

lemma get_session_messages_clock: "clock (snd (get_session_messages w sid limit)) = clock w"
  by (simp add: get_session_messages_def Let_def and_then_clock driver_call_clock'
      split: option.splits)

lemma update_session_summary_clock:
  "clock (snd (update_session_summary w sid summary uid)) = clock w"
  by (simp add: update_session_summary_def Let_def split_def and_then_clock driver_call_clock')

lemma get_or_create_session_clock: "clock (snd (get_or_create_session w sid uid)) = clock w"
  unfolding get_or_create_session_def
  by (rule and_then_clock)
     (auto simp: driver_call_clock' Let_def split_def intro!: and_then_clock split: option.splits)

lemma pack_context_clock: "clock (snd (pack_context cm w sid uid prompt)) = clock w"
  unfolding pack_context_def Let_def
  by (intro and_then_clock get_session_summary_clock)
     (auto simp: get_session_messages_clock update_session_summary_clock
           intro!: and_then_clock)

lemma prepared_state:
  assumes "and_then (get_or_create_session w sid uid) (\<lambda>_ w1.
             and_then (pack_context cm w1 sid uid prompt) (\<lambda>cd w2.
               (let (state, w3) = create_initial_state w2 sid uid prompt (f cd) (g cd) (h cd);
                    state = state\<lparr>llm_client := True\<rparr>
                in and_then (save_message w3 sid uid ''user'' prompt None)
                     (\<lambda>_ w4. (Inr state, w4))))) = (Inr state0, w')"
  shows "retry_count state0 = 0" and "first_token_at state0 = None" and "clock w' = clock w"
proof -
  show "retry_count state0 = 0" and "first_token_at state0 = None"
    using assms
    by (auto simp: and_then_def create_initial_state_def utcnow_timestamp_def Let_def
             split: prod.splits sum.splits)
  have "clock (snd (and_then (get_or_create_session w sid uid) (\<lambda>_ w1.
             and_then (pack_context cm w1 sid uid prompt) (\<lambda>cd w2.
               (let (state, w3) = create_initial_state w2 sid uid prompt (f cd) (g cd) (h cd);
                    state = state\<lparr>llm_client := True\<rparr>
                in and_then (save_message w3 sid uid ''user'' prompt None)
                     (\<lambda>_ w4. (Inr state, w4))))))) = clock w"
    by (intro and_then_clock get_or_create_session_clock)
       (auto simp: pack_context_clock save_message_clock create_initial_state_def
             utcnow_timestamp_def Let_def split_def intro!: and_then_clock)
  then show "clock w' = clock w" using assms by simp
qed

lemma stream_chat_response_done:
  assumes "d \<in> set (done_events (fst (stream_chat_response w request)))"
  obtains w3 s3 k where
    "fullText d = final_answer (fst (synthesizer_node w3 s3))"
    "done_suggestions d = suggestions (fst (synthesizer_node w3 s3))"
    "token_texts (fst (stream_chat_response w request)) =
       map (\<lambda>u. u @ '' '') (str_split (fullText d))"
    "done_events (fst (stream_chat_response w request)) = [d]"
    "completedAt d = Some (clock w k)"
    "firstTokenAt d =
       (if token_texts (fst (stream_chat_response w request)) = [] then None
        else Some (clock w (Suc k)))"
    "ttft_ms d = calculate_ttft (requestStart d) (firstTokenAt d)"
    "total_ms d = calculate_total_time (requestStart d) (completedAt d)"
proof -
  define prep where "prep =
     and_then (get_or_create_session w (req_sessionId request) (req_userId request)) (\<lambda>_ w1.
       and_then (pack_context \<lparr>short_term_k = DEFAULT_SHORT_TERM_K, token_budget = DEFAULT_TOKEN_BUDGET\<rparr>
                   w1 (req_sessionId request) (req_userId request) (req_prompt request)) (\<lambda>context_data w2.
                (let (state, w3) = create_initial_state w2 (req_sessionId request) (req_userId request) (req_prompt request)
                                     (pc_context context_data) (pc_summary context_data)
                                     (pc_last_k_turns context_data);
                     state = state\<lparr>llm_client := True\<rparr>
                 in and_then (save_message w3 (req_sessionId request) (req_userId request) ''user'' (req_prompt request) None)
                      (\<lambda>_ w4. (Inr state, w4)))))"
  obtain r w4 where su: "prep = (r, w4)" by (cases prep)
  show thesis
  proof (cases r)
    case (Inl e)
    then have "fst (stream_chat_response w request) = [ErrorEv e]"
      using su unfolding prep_def by (simp add: stream_chat_response_def Let_def)
    with assms show thesis by simp
  next
    case (Inr state0)
    have st0: "retry_count state0 = 0" "first_token_at state0 = None" "clock w4 = clock w"
      using su Inr unfolding prep_def by (auto intro: prepared_state)
    then have "0 \<le> retry_count state0" by simp
    then obtain s1 w1 s2 w2 s3 w3 s4 w5 where
      pl: "planner_node w4 state0 = (s1, w1)" and wk: "worker_node w1 s1 = (s2, w2)" and
      cr: "critic_node w2 s2 = (s3, w3)" and
      sy: "synthesizer_node w3 s3 = (s4, w5)" and
      as: "astream w4 state0 = ([(''planner'', s1), (''worker'', s2), (''critic'', s3), (''synthesizer'', s4)], w5)"
      by (rule astream_shape [of state0 w4]) blast
    have ck: "clock w3 = clock w"
      using planner_node_clock [of w4 state0] worker_node_clock [of w1 s1]
        critic_node_clock [of w2 s2] pl wk cr st0(3) by simp
    have ft: "first_token_at s3 = None"
      using planner_node_first_token [of w4 state0] worker_node_first_token [of w1 s1]
        critic_node_first_token [of w2 s2] pl wk cr st0(2) by simp
    obtain k where k: "completed_at s4 = Some (clock w k)" "tick w5 = Suc k"
        "clock w5 = clock w" "first_token_at s4 = None"
      using synthesizer_node_stamp [of w3 s3] sy ck ft by auto
    define trace where "trace = [(''planner'', s1), (''worker'', s2), (''critic'', s3), (''synthesizer'', s4)]"
    obtain events fin w6 where re: "relay trace False state0 w5 = (events, fin, w6)"
      by (metis prod_cases3)
    have tk: "token_texts events = map (\<lambda>u. u @ '' '') (str_split (final_answer s4))"
      and dn: "done_events events = []"
      and fs: "fin = (if str_split (final_answer s4) = [] then s4
                      else s4\<lparr>first_token_at := Some (clock w5 (tick w5))\<rparr>)"
      using relay_pipeline [of s1 s2 s3 s4 state0 w5] re unfolding trace_def by simp_all
    have fa: "final_answer fin = final_answer s4" and sg: "suggestions fin = suggestions s4"
      and ca: "completed_at fin = Some (clock w k)"
      and fk: "first_token_at fin =
                 (if str_split (final_answer s4) = [] then None else Some (clock w (Suc k)))"
      using fs k by simp_all
    define ttft where "ttft = calculate_ttft (request_start fin) (first_token_at fin)"
    define total where "total = calculate_total_time (request_start fin) (completed_at fin)"
    obtain pr w7 where pe: "persist w6 request fin ttft total = (pr, w7)"
      by (cases "persist w6 request fin ttft total")
    show thesis
    proof (cases pr)
      case (Inl e)
      then have "fst (stream_chat_response w request) = events @ [ErrorEv e]"
        using su \<open>r = Inr state0\<close> as re pe
        unfolding prep_def trace_def ttft_def total_def
        by (simp add: stream_chat_response_def Let_def)
      with assms dn show thesis by (simp add: done_events_append)
    next
      case (Inr u)
      then have ev: "fst (stream_chat_response w request) = events @
                        [DoneEv \<lparr>fullText = final_answer fin,
                                 done_suggestions = suggestions fin,
                                 requestStart = request_start fin,
                                 firstTokenAt = first_token_at fin,
                                 completedAt = completed_at fin,
                                 ttft_ms = ttft, total_ms = total\<rparr>]"
        using su \<open>r = Inr state0\<close> as re pe
        unfolding prep_def trace_def ttft_def total_def
        by (simp add: stream_chat_response_def Let_def)
      with assms dn have d: "d = \<lparr>fullText = final_answer fin,
                                 done_suggestions = suggestions fin,
                                 requestStart = request_start fin,
                                 firstTokenAt = first_token_at fin,
                                 completedAt = completed_at fin,
                                 ttft_ms = ttft, total_ms = total\<rparr>"
        by (simp add: done_events_append)
      have s4: "s4 = fst (synthesizer_node w3 s3)" using sy by simp
      have tt: "token_texts (fst (stream_chat_response w request)) =
                  map (\<lambda>u. u @ '' '') (str_split (final_answer s4))"
        using ev tk by (simp add: token_texts_append)
      show thesis
      proof (rule that [of w3 s3 k])
        show "fullText d = final_answer (fst (synthesizer_node w3 s3))" using d fa s4 by simp
        show "done_suggestions d = suggestions (fst (synthesizer_node w3 s3))" using d sg s4 by simp
        show "token_texts (fst (stream_chat_response w request)) =
                map (\<lambda>u. u @ '' '') (str_split (fullText d))"
          using ev tk d fa by (simp add: token_texts_append)
        show "done_events (fst (stream_chat_response w request)) = [d]"
          using ev dn d by (simp add: done_events_append)
        show "completedAt d = Some (clock w k)" using d ca by simp
        show "firstTokenAt d =
                (if token_texts (fst (stream_chat_response w request)) = [] then None
                 else Some (clock w (Suc k)))"
          using d fk tt by simp
        show "ttft_ms d = calculate_ttft (requestStart d) (firstTokenAt d)"
          using d by (simp add: ttft_def)
        show "total_ms d = calculate_total_time (requestStart d) (completedAt d)"
          using d by (simp add: total_def)
      qed
    qed
  qed
qed

lemma astream_names:
  "map fst (fst (astream w (s\<lparr>retry_count := 0\<rparr>))) =
     [''planner'', ''worker'', ''critic'', ''synthesizer'']"
  by (rule astream_shape [of "s\<lparr>retry_count := 0\<rparr>" w]) simp_all

lemma astream_retry_counts:
  "map (retry_count \<circ> snd) (fst (astream w (s\<lparr>retry_count := 0\<rparr>))) =
     [0, 0,
      if critic_passed (snd (fst (astream w (s\<lparr>retry_count := 0\<rparr>)) ! 2)) then 0 else 1,
      if critic_passed (snd (fst (astream w (s\<lparr>retry_count := 0\<rparr>)) ! 2)) then 0 else 1]"
proof -
  obtain s1 w1 s2 w2 s3 w3 s4 w4 where
    p: "planner_node w (s\<lparr>retry_count := 0\<rparr>) = (s1, w1)" and wk: "worker_node w1 s1 = (s2, w2)" and
    c: "critic_node w2 s2 = (s3, w3)" and sy: "synthesizer_node w3 s3 = (s4, w4)" and
    as: "astream w (s\<lparr>retry_count := 0\<rparr>) =
           ([(''planner'', s1), (''worker'', s2), (''critic'', s3), (''synthesizer'', s4)], w4)"
    by (rule astream_shape [of "s\<lparr>retry_count := 0\<rparr>" w]) simp_all
  have r1: "retry_count s1 = 0" using planner_node_retry_count [of w "s\<lparr>retry_count := 0\<rparr>"] p by simp
  have r2: "retry_count s2 = 0" using worker_node_retry_count [of w1 s1] wk r1 by simp
  have r3: "retry_count s3 = (if critic_passed s3 then 0 else 1)"
    using critic_node_retry_count [of w2 s2] c r2 by simp
  have r4: "retry_count s4 = retry_count s3" using synthesizer_node_retry_count [of w3 s3] sy by simp
  show ?thesis by (simp add: as r1 r2 r3 r4)
qed

lemma create_initial_state_retry_count:
  "retry_count (fst (create_initial_state w sid uid prompt ctx summary turns)) = 0"
  by (simp add: create_initial_state_def utcnow_timestamp_def)

section \<open>Evaluating the sample runs\<close>

lemma demo_done:
  "done_events (fst (stream_chat_response demo_world demo_request)) =
     [\<lparr>fullText = ''Hello world'',
       done_suggestions = [''Tell me more'', ''What else would you like to know?'',
                           ''Should we explore this topic further?''],
       requestStart = 2, firstTokenAt = Some 19, completedAt = Some 18,
       ttft_ms = Some 17000, total_ms = Some 16000\<rparr>]"
  by code_simp

lemma demo_tokens:
  "token_texts (fst (stream_chat_response demo_world demo_request)) = [''Hello '', ''world '']"
  by code_simp

lemma zebra_run:
  "map (\<lambda>(name, st). (name, length (worker_findings st), critic_passed st, retry_count st))
       (fst (astream zebra_world zebra_state))
   = [(''planner'', 0, False, 0), (''worker'', 1, False, 0),
      (''critic'', 1, False, 1), (''synthesizer'', 1, False, 1)]"
  by code_simp

section \<open>Padding of the suggestions\<close>

lemma pad_suggestions_eq:
  "pad_suggestions sugs = sugs @ drop (length sugs) default_suggestions"
proof (induction sugs rule: pad_suggestions.induct)
  case (1 sugs)
  show ?case
  proof (cases "length sugs < 3")
    case True
    have len: "length default_suggestions = 3" by (simp add: default_suggestions_def)
    have "pad_suggestions sugs = (sugs @ [default_suggestions ! length sugs])
            @ drop (Suc (length sugs)) default_suggestions"
      using 1 True by (subst pad_suggestions.simps) simp
    also have "\<dots> = sugs @ drop (length sugs) default_suggestions"
      using True len by (simp add: Cons_nth_drop_Suc)
    finally show ?thesis .
  next
    case False
    then show ?thesis
      by (subst pad_suggestions.simps) (simp add: default_suggestions_def)
  qed
qed

lemma answer_from_response_suggestions:
  "snd (answer_from_response prompt findings response) =
     take 3 (snd (snd (snd (foldl answer_line (False, False, [], [])
                              (split_on (CHR 0x0A) (str_strip response)))))
             @ drop (length (snd (snd (snd (foldl answer_line (False, False, [], [])
                              (split_on (CHR 0x0A) (str_strip response)))))))
                  default_suggestions)"
  by (simp add: answer_from_response_def Let_def split_def pad_suggestions_eq
      default_suggestions_def)

lemma answer_from_response_three:
  "length (snd (answer_from_response prompt findings response)) = 3"
  by (simp add: answer_from_response_suggestions default_suggestions_def)

lemma synthesizer_node_three: "length (suggestions (fst (synthesizer_node w s))) = 3"
  by (simp add: synthesizer_node_def Let_def split_def llm_generate_def
      answer_from_response_three split: llm_outcome.splits sum.splits)

lemma synthesizer_node_suggestions:
  "suggestions (fst (synthesizer_node w s)) =
     (case (if llm_client s then llm_replies w (llm_calls w)
            else LLMRaises ''LLM client not found in state'') of
        LLMText response \<Rightarrow>
          snd (answer_from_response (user_prompt s) (worker_findings s) response)
      | LLMRaises e \<Rightarrow>
          [''Tell me more about what you need'', ''Can you clarify your question?'',
           ''What would you like to know next?''])"
  by (simp add: synthesizer_node_def Let_def split_def llm_generate_def time_time_def
      split: llm_outcome.splits)

section \<open>Splitting on white space\<close>

lemma split_from_nonempty: "[] \<notin> set (split_from s word)"
  by (induction s arbitrary: word) auto

lemma str_split_nonempty: "[] \<notin> set (str_split s)"
  by (simp add: str_split_def split_from_nonempty)

lemma keywords_nonempty: "[] \<notin> set (remdups (take n (str_split s)))"
  using str_split_nonempty [of s] by (auto dest: in_set_takeD)

lemma no_keyword_in_empty_text:
  "filter (str_contains []) (remdups (take n (str_split s))) = []"
  using keywords_nonempty [of n s] by (auto simp: filter_empty_conv)

lemma split_from_spacefree:
  "list_all (\<lambda>c. \<not> isspace c) u \<Longrightarrow> split_from (u @ rest) word = split_from rest (word @ u)"
  by (induction u arbitrary: word) simp_all

lemma split_from_words_spacefree:
  "list_all (\<lambda>c. \<not> isspace c) word \<Longrightarrow>
     list_all (list_all (\<lambda>c. \<not> isspace c)) (split_from s word)"
  by (induction s arbitrary: word) simp_all

lemma split_units_again:
  assumes "list_all (list_all (\<lambda>c. \<not> isspace c)) ws" and "[] \<notin> set ws"
  shows "split_from (concat (map (\<lambda>u. u @ '' '') ws)) [] = ws"
  using assms
proof (induction ws)
  case Nil
  show ?case by simp
next
  case (Cons u ws)
  have sp: "isspace (CHR '' '')" by (simp add: isspace_def)
  have "split_from (concat (map (\<lambda>u. u @ '' '') (u # ws))) []
          = split_from (u @ (CHR '' '' # concat (map (\<lambda>u. u @ '' '') ws))) []"
    by simp
  also have "\<dots> = split_from (CHR '' '' # concat (map (\<lambda>u. u @ '' '') ws)) u"
    using Cons.prems(1) by (simp add: split_from_spacefree)
  also have "\<dots> = u # split_from (concat (map (\<lambda>u. u @ '' '') ws)) []"
    using Cons.prems(2) sp by auto
  also have "\<dots> = u # ws"
    using Cons by simp
  finally show ?case .
qed

lemma str_split_units_again:
  "str_split (concat (map (\<lambda>u. u @ '' '') (str_split s))) = str_split s"
  unfolding str_split_def
  by (rule split_units_again) (simp_all add: split_from_words_spacefree split_from_nonempty)

section \<open>Executor: what a pass keeps\<close>







lemma worker_node_retry_marker:
  "worker_findings (fst (worker_node w (s\<lparr>retry_count := 1\<rparr>))) =
     worker_findings (fst (worker_node w (s\<lparr>retry_count := 0\<rparr>)))
       @ [\<lparr>f_task = ''retry_adjustment'',
           f_result = ''Re-executed tasks with improved strategy'',
           f_data = RetryAttempt 1\<rparr>]"
  by (simp add: worker_node_def Let_def split_def)





text \<open>
  A query that returns has status \<open>ok\<close>, so the Executor only ever appends successful
  calls to the tool calls of the state.
\<close>

lemma db_find_status:
  "fst (db_find w c sid n) = Inr (result, latency) \<Longrightarrow> res_status result = ''ok''"
  by (auto simp: db_find_def mongo_op_def Let_def split_def split: option.splits)

lemma worker_tasks_calls_ok:
  "list_all (\<lambda>tc. res_status (tc_result tc) = ''ok'') calls \<Longrightarrow>
     list_all (\<lambda>tc. res_status (tc_result tc) = ''ok'')
       (snd (fst (worker_tasks w sid tasks findings calls)))"
proof (induction tasks arbitrary: w findings calls)
  case Nil
  then show ?case by simp
next
  case (Cons task rest)
  show ?case
    using Cons.prems
    by (auto simp: Let_def split_def split: sum.splits prod.splits
             intro!: Cons.IH dest: db_find_status)
qed

lemma worker_node_calls_ok:
  "list_all (\<lambda>tc. res_status (tc_result tc) = ''ok'') (tool_calls s) \<Longrightarrow>
     list_all (\<lambda>tc. res_status (tc_result tc) = ''ok'') (tool_calls (fst (worker_node w s)))"
  by (simp add: worker_node_def Let_def split_def worker_tasks_calls_ok)

section \<open>Planner: the plan on every path\<close>

lemma plan_from_response_tasks:
  "fst (plan_from_response prompt response) =
     (if fst (snd (snd (foldl plan_line (False, False, [], [])
                          (split_on (CHR 0x0A) (str_strip response))))) = []
      then (if list_ex (str_contains (str_lower prompt)) history_words
            then [''Retrieve conversation history to understand context'',
                  ''Analyze user's request: '' @ take 50 prompt,
                  ''Formulate contextual response based on history'']
            else [''Understand the request: '' @ take 50 prompt,
                  ''Gather relevant information'',
                  ''Prepare comprehensive response''])
      else fst (snd (snd (foldl plan_line (False, False, [], [])
                            (split_on (CHR 0x0A) (str_strip response))))))"
  by (simp add: plan_from_response_def Let_def split_def)

lemma plan_from_response_nonempty:
  "fst (plan_from_response prompt response) \<noteq> []"
  "snd (plan_from_response prompt response) \<noteq> []"
  by (simp_all add: plan_from_response_def Let_def split_def)

lemma planner_node_nonempty:
  "subtasks (fst (planner_node w s)) \<noteq> []"
  "data_access_plan (fst (planner_node w s)) \<noteq> []"
  by (simp_all add: planner_node_def Let_def split_def llm_generate_def
      plan_from_response_nonempty split: llm_outcome.splits sum.splits)

lemma planner_node_generation_fails:
  "subtasks (fst (planner_node (w\<lparr>llm_replies := (\<lambda>n. LLMRaises e)\<rparr>) s))
     = [''Process user request: '' @ take 60 (user_prompt s),
        ''Gather necessary information'', ''Prepare appropriate response'']"
  "subtasks (fst (planner_node w (s\<lparr>llm_client := False\<rparr>)))
     = [''Process user request: '' @ take 60 (user_prompt s),
        ''Gather necessary information'', ''Prepare appropriate response'']"
  by (simp_all add: planner_node_def Let_def split_def llm_generate_def time_time_def)

lemma planner_node_reply:
  "subtasks (fst (planner_node (w\<lparr>llm_replies := (\<lambda>n. LLMText response)\<rparr>)
                    (s\<lparr>llm_client := True\<rparr>)))
     = fst (plan_from_response (user_prompt s) response)"
  by (simp add: planner_node_def Let_def split_def llm_generate_def time_time_def)

text \<open>A reply that lists four items, run through the Planner.\<close>

lemma planner_four_items:
  "subtasks (fst (planner_node four_tasks_world my_name_state))
     = [''Read the question'', ''Fetch the history'', ''Compare the answers'', ''Write the reply'']"
  by code_simp

section \<open>Context Packer: the trigger\<close>

lemma get_session_messages_limit:
  assumes "get_session_messages w sid (Some n) = (Inr ms, w')" and "0 < n"
  shows "int (length ms) \<le> n"
  using assms
  by (auto simp: get_session_messages_def and_then_def driver_call_def mongo_op_def Let_def
           split: option.splits prod.splits sum.splits if_splits)

lemma pack_context_positive_k:
  assumes "0 < short_term_k cm"
  shows "(case fst (pack_context cm w sid uid prompt) of
            Inr p \<Rightarrow> pc_summary_updated p = False | Inl e \<Rightarrow> True)
       \<and> sessions_coll (snd (pack_context cm w sid uid prompt)) = sessions_coll w"
proof -
  obtain r1 w1 where s: "get_session_summary w sid = (r1, w1)"
    by (cases "get_session_summary w sid")
  have sw1: "sessions_coll w1 = sessions_coll w"
    using s by (auto simp: get_session_summary_def and_then_def driver_call_def mongo_op_def
                     split: option.splits prod.splits)
  show ?thesis
  proof (cases r1)
    case (Inl e)
    then show ?thesis using s sw1 by (simp add: pack_context_def and_then_def)
  next
    case (Inr summary)
    obtain r2 w2 where m: "get_session_messages w1 sid (Some (short_term_k cm)) = (r2, w2)"
      by (cases "get_session_messages w1 sid (Some (short_term_k cm))")
    have sw2: "sessions_coll w2 = sessions_coll w1"
      using m by (auto simp: get_session_messages_def and_then_def driver_call_def mongo_op_def
                     Let_def split: option.splits prod.splits if_splits)
    show ?thesis
    proof (cases r2)
      case (Inl e)
      then show ?thesis using s \<open>r1 = Inr summary\<close> m sw1 sw2
        by (simp add: pack_context_def and_then_def)
    next
      case (Inr recent)
      then have "int (length recent) \<le> short_term_k cm"
        using get_session_messages_limit [of w1 sid "short_term_k cm" recent w2] m assms by simp
      then have "\<not> int (length recent) > short_term_k cm" by simp
      then show ?thesis using s \<open>r1 = Inr summary\<close> m Inr sw1 sw2
        by (simp add: pack_context_def and_then_def Let_def)
    qed
  qed
qed

lemma sum_list_lower:
  "list_all (\<lambda>x. k \<le> f x) xs \<Longrightarrow> k * length xs \<le> sum_list (map f xs)"
  by (induction xs) auto

lemma long_history_messages:
  "length (messages_coll long_history_world) = 15"
  "filter (\<lambda>m. msg_sessionId m = ''s'') (messages_coll long_history_world)
     = messages_coll long_history_world"
  "list_all (\<lambda>m. 1200 \<le> length (turn_line m)) (messages_coll long_history_world)"
  by (simp_all add: long_history_world_def list_all_iff turn_line_def content_or_empty_def)

section \<open>Validator: which feedback is reported\<close>

text \<open>
  Claim C10. The three checks of the Validator run in a fixed order (no findings, failed
  tool calls, relevance) and each failing check overwrites the feedback, so the reported
  feedback is the message of the last check that fails; the run passes only when none
  fails. With an empty findings list the relevance check fails as well (no keyword of
  the prompt occurs in the empty text), so the feedback is the relevance message, not
  the no-findings message, and validation fails.
\<close>

theorem critic_feedback_last_failing_check:
  fixes w :: world and s :: agent_state
  defines "failed \<equiv> filter (\<lambda>tc. res_status (tc_result tc) \<noteq> ''ok'') (tool_calls s)"
    and "score \<equiv>
           length (filter (str_contains
                             (str_lower (str_join '' '' (map f_result (worker_findings s)))))
                     (remdups (take 5 (str_split (str_lower (user_prompt s))))))"
    and "out \<equiv> fst (critic_node w s)"
    and "out0 \<equiv> fst (critic_node w (s\<lparr>worker_findings := []\<rparr>))"
  shows "critic_feedback out =
           (if score = 0 then ''Worker findings may not be relevant to user request.''
            else if failed \<noteq> [] then
              ''Tool calls failed: '' @ str_of_nat (length failed) @ '' failures detected.''
            else if worker_findings s = [] then ''No findings returned by Worker.''
            else ''Worker output validated successfully.'')
       \<and> critic_passed out = (worker_findings s \<noteq> [] \<and> failed = [] \<and> score \<noteq> 0)
       \<and> critic_feedback out0 = ''Worker findings may not be relevant to user request.''
       \<and> critic_passed out0 = False"
proof -
  have a: "critic_feedback out =
           (if score = 0 then ''Worker findings may not be relevant to user request.''
            else if failed \<noteq> [] then
              ''Tool calls failed: '' @ str_of_nat (length failed) @ '' failures detected.''
            else if worker_findings s = [] then ''No findings returned by Worker.''
            else ''Worker output validated successfully.'')"
    unfolding out_def failed_def score_def
    by (simp add: critic_node_def time_time_def Let_def split_def)
  have b: "critic_passed out = (worker_findings s \<noteq> [] \<and> failed = [] \<and> score \<noteq> 0)"
    unfolding out_def failed_def score_def
    by (auto simp add: critic_node_def time_time_def Let_def split_def)
  have c: "critic_feedback out0 = ''Worker findings may not be relevant to user request.''"
    unfolding out0_def
    by (simp add: critic_node_def time_time_def Let_def split_def str_lower_def
        no_keyword_in_empty_text)
  have d: "critic_passed out0 = False"
    unfolding out0_def
    by (simp add: critic_node_def time_time_def Let_def split_def str_lower_def
        no_keyword_in_empty_text)
  from a b c d show ?thesis by blast
qed

section \<open>The retry edge\<close>

text \<open>
  Claim C1. The claim says that after a failed first validation the Executor runs a second
  time. In the code the Validator has already raised \<open>retry_count\<close> to 1 when the edge
  function \<open>should_retry\<close> reads it, so the test \<open>retry_count < 1\<close> fails and the edge to
  the Executor is never taken: in the second sample run validation fails, the counter
  becomes 1, and the Composer follows the Validator with the Executor run once only; and
  from every state whose counter is 0 the graph runs each node exactly once.
\<close>

theorem retry_edge_never_taken:
  "map (\<lambda>(name, st). (name, length (worker_findings st), critic_passed st, retry_count st))
       (fst (astream zebra_world zebra_state))
     = [(''planner'', 0, False, 0), (''worker'', 1, False, 0),
        (''critic'', 1, False, 1), (''synthesizer'', 1, False, 1)]
   \<and> map fst (fst (astream w (s\<lparr>retry_count := 0\<rparr>)))
     = [''planner'', ''worker'', ''critic'', ''synthesizer'']"
  using zebra_run astream_names by blast

text \<open>
  Claim C5. During a request the retry counter is 0 or 1 at every state the graph yields:
  it is 0 in the initial state, the Planner, the Executor and the Composer hand it on
  unchanged, and the Validator, which runs once, adds 1 exactly when validation fails.
\<close>

theorem retry_count_zero_or_one:
  "retry_count (fst (create_initial_state w0 sid uid prompt ctx summary turns)) = 0
   \<and> retry_count (fst (planner_node w s)) = retry_count s
   \<and> retry_count (fst (worker_node w s)) = retry_count s
   \<and> retry_count (fst (synthesizer_node w s)) = retry_count s
   \<and> retry_count (fst (critic_node w s)) =
       (if critic_passed (fst (critic_node w s)) then retry_count s else retry_count s + 1)
   \<and> map (retry_count \<circ> snd) (fst (astream w (s\<lparr>retry_count := 0\<rparr>))) =
       [0, 0,
        if critic_passed (snd (fst (astream w (s\<lparr>retry_count := 0\<rparr>)) ! 2)) then 0 else 1,
        if critic_passed (snd (fst (astream w (s\<lparr>retry_count := 0\<rparr>)) ! 2)) then 0 else 1]"
  using create_initial_state_retry_count planner_node_retry_count worker_node_retry_count
    synthesizer_node_retry_count critic_node_retry_count astream_retry_counts
  by blast

section \<open>The terminal event\<close>

text \<open>
  What the terminal event reports, on any clock: the total time is taken from a reading
  of the clock, and the time to the first token, present exactly when a token was
  emitted, from the next reading. On a clock that never runs backwards the total time is
  therefore at most the time to the first token.
\<close>

lemma done_event_timing:
  assumes "d \<in> set (done_events (fst (stream_chat_response w request)))"
  shows "(ttft_ms d = None) = (token_texts (fst (stream_chat_response w request)) = [])"
    and "\<exists>k. total_ms d = Some ((clock w k - requestStart d) * 1000)
             \<and> (token_texts (fst (stream_chat_response w request)) \<noteq> [] \<longrightarrow>
                  ttft_ms d = Some ((clock w (Suc k) - requestStart d) * 1000))"
proof -
  obtain w3 s3 k where
    c: "completedAt d = Some (clock w k)" and
    f: "firstTokenAt d =
       (if token_texts (fst (stream_chat_response w request)) = [] then None
        else Some (clock w (Suc k)))" and
    t: "ttft_ms d = calculate_ttft (requestStart d) (firstTokenAt d)" and
    u: "total_ms d = calculate_total_time (requestStart d) (completedAt d)"
    by (rule stream_chat_response_done [OF assms])
  show "(ttft_ms d = None) = (token_texts (fst (stream_chat_response w request)) = [])"
    using f t by (simp add: calculate_ttft_def)
  show "\<exists>k. total_ms d = Some ((clock w k - requestStart d) * 1000)
             \<and> (token_texts (fst (stream_chat_response w request)) \<noteq> [] \<longrightarrow>
                  ttft_ms d = Some ((clock w (Suc k) - requestStart d) * 1000))"
    using c f t u by (auto simp: calculate_ttft_def calculate_total_time_def)
qed

lemma total_before_first_token:
  assumes "d \<in> set (done_events (fst (stream_chat_response w request)))"
    and "\<And>k. clock w k \<le> clock w (Suc k)"
    and "ttft_ms d = Some a" and "total_ms d = Some b"
  shows "b \<le> a"
proof -
  have ne: "token_texts (fst (stream_chat_response w request)) \<noteq> []"
    using done_event_timing(1) [OF assms(1)] assms(3) by auto
  obtain k where "total_ms d = Some ((clock w k - requestStart d) * 1000)"
    and "ttft_ms d = Some ((clock w (Suc k) - requestStart d) * 1000)"
    using done_event_timing(2) [OF assms(1)] ne by blast
  then show ?thesis using assms(2) [of k] assms(3,4) by simp
qed

text \<open>
  Claim C3. The claim says that the time to the first token is at most the total time. The
  Composer stamps \<open>completed_at\<close> before it returns, and the relay stamps
  \<open>first_token_at\<close> afterwards, when it emits the first word; in the first sample run
  the terminal event therefore reports a time to first token of 17000 ms and a total
  time of 16000 ms.
\<close>

theorem ttft_exceeds_total_time:
  "map (\<lambda>d. (firstTokenAt d, completedAt d, ttft_ms d, total_ms d))
       (done_events (fst (stream_chat_response demo_world demo_request)))
     = [(Some 19, Some 18, Some 17000, Some 16000)]"
  by (simp add: demo_done)

text \<open>
  Claim C4, as stated: the concatenation of the token texts equals the full text of the
  terminal event. It does not: every token carries a trailing space, so in the first
  sample run the tokens concatenate to \<open>Hello world\<close> followed by a space, while the full
  text is \<open>Hello world\<close>.
\<close>

theorem token_concat_counterexample:
  "map fullText (done_events (fst (stream_chat_response demo_world demo_request)))
     = [''Hello world'']
   \<and> concat (token_texts (fst (stream_chat_response demo_world demo_request)))
     = ''Hello world ''"
  by (simp add: demo_done demo_tokens)

text \<open>
  Claim C4, amended. For every request that ends with a \<^verbatim>\<open>done\<close> event, the token texts
  are exactly the white-space-delimited units of the full text, in order, each followed by
  one space; so their concatenation splits into the same units as the full text.
\<close>

theorem token_stream_units:
  assumes "d \<in> set (done_events (fst (stream_chat_response w request)))"
  shows "token_texts (fst (stream_chat_response w request))
           = map (\<lambda>u. u @ '' '') (str_split (fullText d))
       \<and> str_split (concat (token_texts (fst (stream_chat_response w request))))
           = str_split (fullText d)"
proof -
  have "token_texts (fst (stream_chat_response w request))
          = map (\<lambda>u. u @ '' '') (str_split (fullText d))"
    by (rule stream_chat_response_done [OF assms])
  then show ?thesis by (simp add: str_split_units_again)
qed

theorem token_stream_units_witness:
  "token_texts (fst (stream_chat_response demo_world demo_request))
     = map (\<lambda>u. u @ '' '')
         (str_split (fullText (hd (done_events (fst (stream_chat_response demo_world demo_request))))))
   \<and> str_split (concat (token_texts (fst (stream_chat_response demo_world demo_request))))
     = str_split (fullText (hd (done_events (fst (stream_chat_response demo_world demo_request)))))"
proof -
  have "hd (done_events (fst (stream_chat_response demo_world demo_request)))
          \<in> set (done_events (fst (stream_chat_response demo_world demo_request)))"
    by (simp add: demo_done)
  from token_stream_units [OF this] show ?thesis .
qed

text \<open>
  Claim C9. The \<^verbatim>\<open>done\<close> event of every request carries exactly three suggestions, and
  they are the Composer's. When a reply arrived, the Composer's suggestions are the
  suggestions parsed from it, padded from the fixed list of three fillers (the filler at
  each missing position) when fewer than three were parsed, and cut to three; when
  generation raised or no client is present, they are the three fixed fallback
  suggestions. So the list of the \<^verbatim>\<open>done\<close> event is one of these two.
\<close>

theorem done_suggestions_exactly_three:
  fixes w w' :: world and s :: agent_state and d :: done_data
  defines "parsed \<equiv> \<lambda>response.
             snd (snd (snd (foldl answer_line (False, False, [], [])
                              (split_on (CHR 0x0A) (str_strip response)))))"
    and "padded \<equiv> \<lambda>sugs. take 3 (sugs @ drop (length sugs) default_suggestions)"
    and "fallback \<equiv> [''Tell me more about what you need'', ''Can you clarify your question?'',
                       ''What would you like to know next?'']"
  assumes ev: "d \<in> set (done_events (fst (stream_chat_response w request)))"
  shows "length (done_suggestions d) = 3
       \<and> ((\<exists>response. done_suggestions d = padded (parsed response))
            \<or> done_suggestions d = fallback)
       \<and> length (suggestions (fst (synthesizer_node w' s))) = 3
       \<and> suggestions (fst (synthesizer_node w' s)) =
           (case (if llm_client s then llm_replies w' (llm_calls w')
                  else LLMRaises ''LLM client not found in state'') of
              LLMText response \<Rightarrow> padded (parsed response)
            | LLMRaises e \<Rightarrow> fallback)
       \<and> snd (answer_from_response prompt findings response) = padded (parsed response)"
proof -
  have any: "suggestions (fst (synthesizer_node v t)) =
           (case (if llm_client t then llm_replies v (llm_calls v)
                  else LLMRaises ''LLM client not found in state'') of
              LLMText response \<Rightarrow> padded (parsed response)
            | LLMRaises e \<Rightarrow> fallback)" for v t
    unfolding parsed_def padded_def fallback_def
    by (simp add: synthesizer_node_suggestions answer_from_response_suggestions
        split: llm_outcome.splits)
  obtain w3 s3 where ds: "done_suggestions d = suggestions (fst (synthesizer_node w3 s3))"
    by (rule stream_chat_response_done [OF ev])
  have len: "length (done_suggestions d) = 3" using ds by (simp add: synthesizer_node_three)
  have alt: "(\<exists>response. done_suggestions d = padded (parsed response))
            \<or> done_suggestions d = fallback"
    using ds any [of w3 s3] by (auto split: llm_outcome.splits if_splits)
  have afr: "snd (answer_from_response prompt findings response) = padded (parsed response)"
    unfolding parsed_def padded_def by (rule answer_from_response_suggestions)
  from len alt any [of w' s] afr synthesizer_node_three [of w' s] show ?thesis by blast
qed

theorem done_suggestions_exactly_three_witness:
  "done_events (fst (stream_chat_response demo_world demo_request)) \<noteq> []
   \<and> length (done_suggestions
               (hd (done_events (fst (stream_chat_response demo_world demo_request))))) = 3"
proof -
  have "hd (done_events (fst (stream_chat_response demo_world demo_request)))
          \<in> set (done_events (fst (stream_chat_response demo_world demo_request)))"
    by (simp add: demo_done)
  from done_suggestions_exactly_three [OF this] show ?thesis by (simp add: demo_done)
qed

section \<open>Executor\<close>

text \<open>
  Claim C6. The claim says that a query that fails is recorded both as a finding and as a
  tool-call entry of the request state. \<open>db_find\<close> never returns an error status: it
  raises, after logging the failure in the log of the tools object. The Executor's handler
  then appends a finding and goes on with the next subtask, but appends nothing to
  \<open>tool_calls\<close>: with a store that raises, the two subtasks give two findings, no
  tool-call entry in the state, and one failed entry in the log of the tools object.
\<close>

theorem failed_query_leaves_no_tool_call:
  "map f_result (worker_findings (fst (worker_node faulty_store_world two_task_state)))
     = [''Error fetching data: connection refused'', ''Completed: Write the summary'']
   \<and> tool_calls (fst (worker_node faulty_store_world two_task_state)) = []
   \<and> map (\<lambda>tc. (tc_tool tc, res_status (tc_result tc), res_error (tc_result tc)))
         (tool_call_logs (snd (worker_node faulty_store_world two_task_state)))
     = [(''db.find'', ''error'', Some ''connection refused'')]"
  by code_simp



section \<open>Planner\<close>

text \<open>
  Claim C8, as stated: when the generation call fails, the fallback plan is
  history-oriented if the prompt contains a memory word. It is not: when generation
  raises, the plan is the fixed one of the \<^verbatim>\<open>except\<close> branch, although the prompt contains
  the word \<open>my\<close>.
\<close>

theorem planner_counterexample:
  "list_ex (str_contains (str_lower (user_prompt my_name_state))) history_words
   \<and> subtasks (fst (planner_node offline_world my_name_state))
     = [''Process user request: what is my name'', ''Gather necessary information'',
        ''Prepare appropriate response'']
   \<and> data_access_plan (fst (planner_node offline_world my_name_state))
     = ''Assess if database query needed during execution''"
  by code_simp

text \<open>
  Claim C8, amended. On every input the Planner returns at least one subtask and a
  non-empty data-access plan (it is a total function: every exception of the generation
  step is caught). When generation raises or no client is present, the subtasks are the
  fixed three of the \<^verbatim>\<open>except\<close> branch, whatever the prompt contains. When a reply
  arrived and no subtask was parsed from it, they are the three-step fallback,
  history-oriented if the prompt contains one of the memory words and generic otherwise;
  when one to three subtasks were parsed, they are these.
\<close>

theorem planner_always_plans:
  fixes w :: world and s :: agent_state
  defines "parsed \<equiv> \<lambda>response.
             fst (snd (snd (foldl plan_line (False, False, [], [])
                              (split_on (CHR 0x0A) (str_strip response)))))"
    and "replied \<equiv> \<lambda>response.
             subtasks (fst (planner_node (w\<lparr>llm_replies := (\<lambda>n. LLMText response)\<rparr>)
                              (s\<lparr>llm_client := True\<rparr>)))"
  shows "subtasks (fst (planner_node w s)) \<noteq> []
   \<and> data_access_plan (fst (planner_node w s)) \<noteq> []
   \<and> subtasks (fst (planner_node (w\<lparr>llm_replies := (\<lambda>n. LLMRaises e)\<rparr>) s))
       = [''Process user request: '' @ take 60 (user_prompt s),
          ''Gather necessary information'', ''Prepare appropriate response'']
   \<and> subtasks (fst (planner_node w (s\<lparr>llm_client := False\<rparr>)))
       = [''Process user request: '' @ take 60 (user_prompt s),
          ''Gather necessary information'', ''Prepare appropriate response'']
   \<and> (parsed response = [] \<longrightarrow>
        replied response =
          (if list_ex (str_contains (str_lower (user_prompt s))) history_words
           then [''Retrieve conversation history to understand context'',
                 ''Analyze user's request: '' @ take 50 (user_prompt s),
                 ''Formulate contextual response based on history'']
           else [''Understand the request: '' @ take 50 (user_prompt s),
                 ''Gather relevant information'',
                 ''Prepare comprehensive response'']))
   \<and> (parsed response \<noteq> [] \<and> length (parsed response) \<le> 3 \<longrightarrow>
        replied response = parsed response)"
  unfolding parsed_def replied_def
  using planner_node_nonempty planner_node_generation_fails planner_node_reply
    plan_from_response_tasks
  by presburger

theorem planner_always_plans_witness:
  "subtasks (fst (planner_node (demo_world\<lparr>llm_replies := (\<lambda>n. LLMText ''I cannot plan this'')\<rparr>)
                    (my_name_state\<lparr>llm_client := True\<rparr>)))
     = [''Retrieve conversation history to understand context'',
        ''Analyze user's request: what is my name'',
        ''Formulate contextual response based on history'']
   \<and> subtasks (fst (planner_node
                      (demo_world\<lparr>llm_replies := (\<lambda>n. LLMText
                         ''SUBTASKS:\<newline>1. Fetch the history\<newline>2. Summarise the facts'')\<rparr>)
                      (my_name_state\<lparr>llm_client := True\<rparr>)))
     = [''Fetch the history'', ''Summarise the facts'']"
proof -
  have p0: "fst (snd (snd (foldl plan_line (False, False, [], [])
                (split_on (CHR 0x0A) (str_strip ''I cannot plan this''))))) = []"
    by code_simp
  have p2: "fst (snd (snd (foldl plan_line (False, False, [], [])
                (split_on (CHR 0x0A) (str_strip
                   ''SUBTASKS:\<newline>1. Fetch the history\<newline>2. Summarise the facts'')))))
            = [''Fetch the history'', ''Summarise the facts'']"
    by code_simp
  have kw: "list_ex (str_contains (str_lower (user_prompt my_name_state))) history_words"
    by code_simp
  have up: "user_prompt my_name_state = ''what is my name''"
    by code_simp
  have a: "subtasks (fst (planner_node (demo_world\<lparr>llm_replies := (\<lambda>n. LLMText ''I cannot plan this'')\<rparr>)
                    (my_name_state\<lparr>llm_client := True\<rparr>)))
     = [''Retrieve conversation history to understand context'',
        ''Analyze user's request: '' @ take 50 (user_prompt my_name_state),
        ''Formulate contextual response based on history'']"
    using planner_always_plans [of demo_world my_name_state e "''I cannot plan this''"] p0 kw
    by presburger
  have b: "subtasks (fst (planner_node
                      (demo_world\<lparr>llm_replies := (\<lambda>n. LLMText
                         ''SUBTASKS:\<newline>1. Fetch the history\<newline>2. Summarise the facts'')\<rparr>)
                      (my_name_state\<lparr>llm_client := True\<rparr>)))
     = [''Fetch the history'', ''Summarise the facts'']"
    using planner_always_plans [of demo_world my_name_state e
            "''SUBTASKS:\<newline>1. Fetch the history\<newline>2. Summarise the facts''"] p2
    by simp
  from a b up show ?thesis by simp
qed

section \<open>Context Packer\<close>

text \<open>
  Claim C2. The claim says that a call whose token estimate exceeds the budget, on a
  session with more stored turns than \<open>K\<close>, re-summarizes once. The code compares
  \<open>K\<close> with the number of turns it has just fetched with limit \<open>K\<close>, which is never
  larger than \<open>K\<close>: with the default \<open>K = 10\<close> and budget 3000, on a session of fifteen
  long turns the estimate exceeds 3000, and the call returns without a new summary and
  without writing one to the store.
\<close>

theorem resummarization_not_triggered:
  fixes cm :: context_manager
  defines "cm \<equiv> \<lparr>short_term_k = DEFAULT_SHORT_TERM_K, token_budget = DEFAULT_TOKEN_BUDGET\<rparr>"
  shows "length (filter (\<lambda>m. msg_sessionId m = ''s'') (messages_coll long_history_world)) = 15
       \<and> (case pack_context cm long_history_world ''s'' ''u'' ''hello'' of
           (Inr p, w') \<Rightarrow> 3000 < pc_token_count p \<and> pc_summary_updated p = False
                            \<and> pc_summary p = None \<and> sessions_coll w' = []
         | (Inl e, w') \<Rightarrow> False)"
proof -
  define sorted where
    "sorted = sort_key msg_timestamp (messages_coll long_history_world)"
  define recent where "recent = take 10 (drop 5 sorted)"
  define w1 where "w1 = long_history_world\<lparr>db_ops := 1\<rparr>"
  define w2 where "w2 = long_history_world\<lparr>db_ops := 3\<rparr>"
  have len_sorted: "length sorted = 15"
    by (simp add: sorted_def long_history_messages)
  have len_recent: "length recent = 10"
    by (simp add: recent_def len_sorted)
  have "set recent \<subseteq> set (messages_coll long_history_world)"
    unfolding recent_def sorted_def
    by (metis set_take_subset set_drop_subset set_sort subset_trans)
  then have big: "list_all (\<lambda>m. 1200 \<le> length (turn_line m)) recent"
    using long_history_messages(3) by (auto simp: list_all_iff)
  have s: "get_session_summary long_history_world ''s'' = (Inr None, w1)"
    by (simp add: get_session_summary_def and_then_def driver_call_def mongo_op_def w1_def
        long_history_world_def)
  have m: "get_session_messages w1 ''s'' (Some 10) = (Inr recent, w2)"
    using len_sorted
    by (simp add: get_session_messages_def and_then_def driver_call_def mongo_op_def Let_def
        w1_def w2_def recent_def sorted_def long_history_messages)
       (simp add: long_history_world_def)
  define ctx where
    "ctx = str_join ''\<newline>''
       [''You are a helpful AI assistant. Answer based on conversation history and current request.'',
        ''\<newline>[Recent Conversation]'' @ concat (map turn_line recent),
        ''\<newline>[Current Request]\<newline>USER: hello'']"
  have ne: "recent \<noteq> []" using len_recent by auto
  have p: "pack_context cm long_history_world ''s'' ''u'' ''hello'' =
          (Inr \<lparr>pc_context = ctx, pc_summary = None,
                pc_last_k_turns = map (\<lambda>msg. \<lparr>turn_role = msg_role msg, turn_content = msg_content msg,
                                  turn_timestamp = msg_timestamp msg\<rparr>) recent,
                pc_token_count = estimate_tokens ctx, pc_summary_updated = False\<rparr>, w2)"
    using ne len_recent
    by (simp add: pack_context_def cm_def DEFAULT_SHORT_TERM_K_def s m and_then_def Let_def
        ctx_def)
  have "1200 * length recent \<le> sum_list (map (\<lambda>m. length (turn_line m)) recent)"
    using big by (rule sum_list_lower)
  then have "12000 \<le> length (concat (map turn_line recent))"
    by (simp add: len_recent length_concat comp_def)
  then have "12004 \<le> length ctx"
    by (simp add: ctx_def)
  then have "3000 < estimate_tokens ctx"
    by (simp add: estimate_tokens_def CHARS_PER_TOKEN_def)
  then show ?thesis
    by (simp add: p w2_def long_history_messages) (simp add: long_history_world_def)
qed

end
